theory Spec2Isabelle
  imports Complex_Main
begin

section \<open>Values, errors and names\<close>

text \<open>
  A Python float is either a finite number or one of the three non-finite values.
  The finite ones are modelled as reals; only finiteness and equality are used below,
  never floating-point rounding.
\<close>

datatype pyfloat = Fin real | NaN | PosInf | NegInf

fun isfinite :: "pyfloat \<Rightarrow> bool" where
  "isfinite (Fin r) = True"
| "isfinite NaN = False"
| "isfinite PosInf = False"
| "isfinite NegInf = False"

text \<open>The exceptions that the modelled code and the numpy calls it makes can raise.\<close>

datatype py_error =
    NameError string
  | ValueError
  | IndexError
  | TypeError
  | OverflowError
  | MemoryError
  | OtherError string

text \<open>
  Name resolution inside a function body: the function's local names, then the module's
  global names, then the builtins; a name found nowhere raises \<open>NameError\<close>. The
  builtins listed are the builtin functions and constants; the builtin exception classes
  are left out.
\<close>

definition py_builtins :: "string list" where
  "py_builtins =
    [''abs'', ''all'', ''any'', ''ascii'', ''bin'', ''bool'', ''breakpoint'', ''bytearray'',
     ''bytes'', ''callable'', ''chr'', ''classmethod'', ''compile'', ''complex'', ''delattr'',
     ''dict'', ''dir'', ''divmod'', ''enumerate'', ''eval'', ''exec'', ''filter'', ''float'',
     ''format'', ''frozenset'', ''getattr'', ''globals'', ''hasattr'', ''hash'', ''help'',
     ''hex'', ''id'', ''input'', ''int'', ''isinstance'', ''issubclass'', ''iter'', ''len'',
     ''list'', ''locals'', ''map'', ''max'', ''memoryview'', ''min'', ''next'', ''object'',
     ''oct'', ''open'', ''ord'', ''pow'', ''print'', ''property'', ''range'', ''repr'',
     ''reversed'', ''round'', ''set'', ''setattr'', ''slice'', ''sorted'', ''staticmethod'',
     ''str'', ''sum'', ''super'', ''tuple'', ''type'', ''vars'', ''zip'', ''__import__'',
     ''None'', ''True'', ''False'', ''Ellipsis'', ''NotImplemented'', ''__debug__'',
     ''__name__'', ''__doc__'', ''__file__'']"

definition lookup_name :: "string list \<Rightarrow> string list \<Rightarrow> string \<Rightarrow> py_error + string" where
  "lookup_name locals globals n =
     (if n \<in> set locals \<or> n \<in> set globals \<or> n \<in> set py_builtins
      then Inr n else Inl (NameError n))"

section \<open>Arrays\<close>

text \<open>
  The arrays a caller passes in are objects the caller keeps a reference to, and
  \<open>np.ma.fix_invalid(..., copy=False)\<close> works on the caller's buffer. So the input
  arrays live in a store: an array is a buffer address and a shape, and the store maps
  an address to the buffer's contents in C order. Two arrays with the same address are
  the same buffer. Arrays that the code creates and returns are plain values.
\<close>

type_synonym heap = "nat \<Rightarrow> pyfloat list"

record ndarray =
  buf :: nat
  shape :: "nat list"

text \<open>\<open>a.size\<close> and \<open>a.ravel()\<close>.\<close>

definition size_nd :: "ndarray \<Rightarrow> nat" where
  "size_nd a = prod_list (shape a)"

definition ravel :: "heap \<Rightarrow> ndarray \<Rightarrow> pyfloat list" where
  "ravel h a = h (buf a)"

text \<open>A two-dimensional array held by value, in row-major order.\<close>

record mat =
  nrows :: nat
  ncols :: nat
  cells :: "pyfloat list"

text \<open>A masked array held by value: shape, data and mask.\<close>

record marray =
  mshape :: "nat list"
  mdata :: "pyfloat list"
  mmask :: "bool list"

text \<open>A masked array that shares the buffer of an array in the store.\<close>

record mview =
  base :: ndarray
  vmask :: "bool list"

definition fill_value :: pyfloat where
  "fill_value = Fin (- 999999)"

definition fix_value :: "pyfloat \<Rightarrow> pyfloat" where
  "fix_value v = (if isfinite v then v else fill_value)"

text \<open>
  \<open>np.ma.fix_invalid(a, copy=False, fill_value=-999999.0)\<close> on an array of the store.
  numpy wraps the buffer without copying it, masks the entries that are not finite and
  writes the fill value over them in that same buffer; with no such entry nothing is
  written.
\<close>

definition fix_invalid :: "heap \<Rightarrow> ndarray \<Rightarrow> heap \<times> mview" where
  "fix_invalid h a =
     (let dat = h (buf a);
          invalid = map (\<lambda>v. \<not> isfinite v) dat
      in if \<not> list_ex (\<lambda>b. b) invalid
         then (h, \<lparr>base = a, vmask = invalid\<rparr>)
         else (h(buf a := map fix_value dat), \<lparr>base = a, vmask = invalid\<rparr>))"

text \<open>The same call on a freshly made array, which no caller holds.\<close>

definition fix_invalid_new :: "nat list \<Rightarrow> pyfloat list \<Rightarrow> marray" where
  "fix_invalid_new sh dat =
     \<lparr>mshape = sh, mdata = map fix_value dat, mmask = map (\<lambda>v. \<not> isfinite v) dat\<rparr>"

text \<open>
  Whether numpy can make an array of a given (non-negative) size depends on the platform:
  beyond its size limits numpy refuses with \<open>ValueError\<close> ("Maximum allowed dimension
  exceeded", "array is too big"), and when the memory is short the allocation raises
  \<open>MemoryError\<close>. An allocator says, for a number of rows and of columns, which of
  the three happens.
\<close>

datatype alloc_result = Allocated | TooBig | NoMemory

type_synonym allocator = "nat \<Rightarrow> nat \<Rightarrow> alloc_result"

text \<open>
  \<open>np.zeros([n, k], order="F")\<close>: a negative dimension raises \<open>ValueError\<close>, and
  so does a table beyond numpy's size limits; a table that does not fit into the memory
  raises \<open>MemoryError\<close>.
\<close>

definition np_zeros :: "allocator \<Rightarrow> nat \<Rightarrow> int \<Rightarrow> py_error + mat" where
  "np_zeros al n k =
     (if k < 0 then Inl ValueError
      else (case al n (nat k) of
              TooBig \<Rightarrow> Inl ValueError
            | NoMemory \<Rightarrow> Inl MemoryError
            | Allocated \<Rightarrow>
                Inr \<lparr>nrows = n, ncols = nat k, cells = replicate (n * nat k) (Fin 0)\<rparr>))"

text \<open>\<open>np.ones(shape)\<close>, flattened.\<close>

definition np_ones :: "nat list \<Rightarrow> pyfloat list" where
  "np_ones sh = replicate (prod_list sh) (Fin 1)"

text \<open>\<open>v.reshape(shape)\<close> of flat data: the sizes must agree.\<close>

definition reshape :: "pyfloat list \<Rightarrow> nat list \<Rightarrow> py_error + (nat list \<times> pyfloat list)" where
  "reshape dat sh = (if length dat = prod_list sh then Inr (sh, dat) else Inl ValueError)"

text \<open>
  \<open>a.reshape(a.shape[0], -1)\<close>: \<open>a.shape[0]\<close> raises \<open>IndexError\<close> on a
  zero-dimensional array, and the unknown dimension cannot be inferred when the known one
  is zero or does not divide the size.
\<close>

definition reshape_lead :: "nat list \<Rightarrow> pyfloat list \<Rightarrow> py_error + mat" where
  "reshape_lead sh dat =
     (case sh of
        [] \<Rightarrow> Inl IndexError
      | l # _ \<Rightarrow>
          if l = 0 \<or> length dat mod l \<noteq> 0 then Inl ValueError
          else Inr \<lparr>nrows = l, ncols = length dat div l, cells = dat\<rparr>)"

text \<open>\<open>m.transpose()\<close> of a two-dimensional array.\<close>

definition transpose_m :: "mat \<Rightarrow> mat" where
  "transpose_m m =
     \<lparr>nrows = ncols m, ncols = nrows m,
      cells = concat (map (\<lambda>j. map (\<lambda>i. cells m ! (i * ncols m + j)) [0..<nrows m])
                          [0..<ncols m])\<rparr>"

section \<open>The objective-analysis library\<close>

text \<open>
  \<open>seapy.oalib\<close> is a compiled Fortran extension; the facade is verified for any
  behaviour of its two routines. A routine receives the flattened arrays by value and
  either raises or returns the estimate, the error field and the contents of the weight
  map after the call (the routine fills the weight map it is handed in place).
\<close>

record oa2d_args =
  a_x :: "pyfloat list"
  a_y :: "pyfloat list"
  a_d :: "pyfloat list"
  a_xx :: "pyfloat list"
  a_yy :: "pyfloat list"
  a_nx :: int
  a_ny :: int
  a_pmap :: mat

record oa3d_args =
  b_x :: "pyfloat list"
  b_y :: "pyfloat list"
  b_z :: mat
  b_v :: mat
  b_xx :: "pyfloat list"
  b_yy :: "pyfloat list"
  b_zz :: mat
  b_nx :: int
  b_ny :: int
  b_pmap :: mat

type_synonym oa2d_fun = "oa2d_args \<Rightarrow> py_error + (pyfloat list \<times> pyfloat list \<times> mat)"
type_synonym oa3d_fun = "oa3d_args \<Rightarrow> py_error + (mat \<times> mat \<times> mat)"

section \<open>oa.py\<close>

text \<open>
  The names bound at module level in \<open>oa.py\<close> (its imports and its two functions), and
  the local names of \<open>oavol\<close> (its parameters and the variables it assigns).
\<close>

definition oa_globals :: "string list" where
  "oa_globals = [''print_function'', ''np'', ''seapy'', ''oasurf'', ''oavol'']"

definition oavol_locals :: "string list" where
  "oavol_locals = [''x'', ''y'', ''z'', ''v'', ''xx'', ''yy'', ''zz'', ''pmap'', ''weight'',
                   ''nx'', ''ny'', ''vv'', ''err'']"

subsection \<open>oasurf\<close>

text \<open>
  Everything \<open>oasurf\<close> does before it calls the library: the two lines under
  "Do some error checking", the in-place normalisation of \<open>d\<close>, and the allocation
  of a weight map when none is passed. The result is the store after these steps and
  either the exception raised or the arguments handed to \<open>oa2d\<close>.
\<close>

definition oasurf_args ::
  "allocator \<Rightarrow> heap \<Rightarrow> ndarray \<Rightarrow> ndarray \<Rightarrow> ndarray \<Rightarrow> ndarray \<Rightarrow> ndarray \<Rightarrow> mat option \<Rightarrow> int \<Rightarrow> int \<Rightarrow> int
     \<Rightarrow> heap \<times> (py_error + oa2d_args)" where
  "oasurf_args al h x y d xx yy pmap weight nx ny =
     (let nx1 = (if nx = 0 then ny else nx);
          ny1 = (if ny = 0 then nx1 else ny);
          (h1, dm) = fix_invalid h d
      in case (case pmap of None \<Rightarrow> np_zeros al (size_nd xx) weight | Some p \<Rightarrow> Inr p) of
           Inl e \<Rightarrow> (h1, Inl e)
         | Inr pmap1 \<Rightarrow>
             (h1, Inr \<lparr>a_x = ravel h1 x, a_y = ravel h1 y, a_d = ravel h1 (base dm),
                       a_xx = ravel h1 xx, a_yy = ravel h1 yy,
                       a_nx = nx1, a_ny = ny1, a_pmap = pmap1\<rparr>))"

text \<open>"Reshape the results and return".\<close>

definition oasurf_ret :: "ndarray \<Rightarrow> pyfloat list \<Rightarrow> mat \<Rightarrow> py_error + (marray \<times> mat)" where
  "oasurf_ret xx vv pmap =
     (case reshape vv (shape xx) of
        Inl e \<Rightarrow> Inl e
      | Inr (sh, dat) \<Rightarrow> Inr (fix_invalid_new sh dat, pmap))"

definition oasurf ::
  "allocator \<Rightarrow> oa2d_fun \<Rightarrow> heap \<Rightarrow> ndarray \<Rightarrow> ndarray \<Rightarrow> ndarray \<Rightarrow> ndarray \<Rightarrow> ndarray \<Rightarrow> mat option
     \<Rightarrow> int \<Rightarrow> int \<Rightarrow> int \<Rightarrow> heap \<times> (py_error + (marray \<times> mat))" where
  "oasurf al oa2d h x y d xx yy pmap weight nx ny =
     (case oasurf_args al h x y d xx yy pmap weight nx ny of
        (h1, Inl e) \<Rightarrow> (h1, Inl e)
      | (h1, Inr a) \<Rightarrow>
          (case oa2d a of
             Inl e \<Rightarrow> (h1, Inl e)
           | Inr (vv, err, pmap1) \<Rightarrow> (h1, oasurf_ret xx vv pmap1)))"

subsection \<open>oavol\<close>

text \<open>
  The weight map \<open>oavol\<close> works with. When none is passed, the code allocates one and
  then evaluates the arguments of the \<open>oa2d\<close> call that is to build it; the third of
  them is \<open>ones(x.shape)\<close>, and the name \<open>ones\<close> has to be resolved first.
\<close>

definition oavol_pmap ::
  "allocator \<Rightarrow> oa2d_fun \<Rightarrow> heap \<Rightarrow> ndarray \<Rightarrow> ndarray \<Rightarrow> ndarray \<Rightarrow> ndarray \<Rightarrow> mat option \<Rightarrow> int \<Rightarrow> int \<Rightarrow> int
     \<Rightarrow> py_error + mat" where
  "oavol_pmap al oa2d h x y xx yy pmap weight nx ny =
     (case pmap of
        Some p \<Rightarrow> Inr p
      | None \<Rightarrow>
          (case np_zeros al (size_nd xx) weight of
             Inl e \<Rightarrow> Inl e
           | Inr p0 \<Rightarrow>
               (case lookup_name oavol_locals oa_globals ''ones'' of
                  Inl e \<Rightarrow> Inl e
                | Inr _ \<Rightarrow>
                    (case oa2d \<lparr>a_x = ravel h x, a_y = ravel h y, a_d = np_ones (shape x),
                                a_xx = ravel h xx, a_yy = ravel h yy,
                                a_nx = nx, a_ny = ny, a_pmap = p0\<rparr> of
                       Inl e \<Rightarrow> Inl e
                     | Inr (vv, err, p1) \<Rightarrow> Inr p1))))"

text \<open>
  Everything \<open>oavol\<close> does before it calls \<open>oa3d\<close>. Only \<open>z\<close> goes through
  \<open>fix_invalid\<close>; \<open>v\<close> and \<open>zz\<close> are reshaped as they are.
\<close>

definition oavol_args ::
  "allocator \<Rightarrow> oa2d_fun \<Rightarrow> heap \<Rightarrow> ndarray \<Rightarrow> ndarray \<Rightarrow> ndarray \<Rightarrow> ndarray \<Rightarrow> ndarray \<Rightarrow> ndarray \<Rightarrow> ndarray
     \<Rightarrow> mat option \<Rightarrow> int \<Rightarrow> int \<Rightarrow> int \<Rightarrow> heap \<times> (py_error + oa3d_args)" where
  "oavol_args al oa2d h x y z v xx yy zz pmap weight nx ny =
     (let nx1 = (if nx = 0 then ny else nx);
          ny1 = (if ny = 0 then nx1 else ny);
          (h1, zm) = fix_invalid h z
      in case oavol_pmap al oa2d h1 x y xx yy pmap weight nx1 ny1 of
           Inl e \<Rightarrow> (h1, Inl e)
         | Inr pmap1 \<Rightarrow>
             (case reshape_lead (shape (base zm)) (ravel h1 (base zm)) of
                Inl e \<Rightarrow> (h1, Inl e)
              | Inr zr \<Rightarrow>
                  (case reshape_lead (shape v) (ravel h1 v) of
                     Inl e \<Rightarrow> (h1, Inl e)
                   | Inr vr \<Rightarrow>
                       (case reshape_lead (shape zz) (ravel h1 zz) of
                          Inl e \<Rightarrow> (h1, Inl e)
                        | Inr zzr \<Rightarrow>
                            (h1, Inr \<lparr>b_x = ravel h1 x, b_y = ravel h1 y,
                                      b_z = transpose_m zr, b_v = transpose_m vr,
                                      b_xx = ravel h1 xx, b_yy = ravel h1 yy,
                                      b_zz = transpose_m zzr,
                                      b_nx = nx1, b_ny = ny1, b_pmap = pmap1\<rparr>)))))"

definition oavol_ret :: "ndarray \<Rightarrow> mat \<Rightarrow> mat \<Rightarrow> py_error + (marray \<times> mat)" where
  "oavol_ret zz vv pmap =
     (case reshape (cells (transpose_m vv)) (shape zz) of
        Inl e \<Rightarrow> Inl e
      | Inr (sh, dat) \<Rightarrow> Inr (fix_invalid_new sh dat, pmap))"

definition oavol ::
  "allocator \<Rightarrow> oa2d_fun \<Rightarrow> oa3d_fun \<Rightarrow> heap \<Rightarrow> ndarray \<Rightarrow> ndarray \<Rightarrow> ndarray \<Rightarrow> ndarray \<Rightarrow> ndarray \<Rightarrow> ndarray
     \<Rightarrow> ndarray \<Rightarrow> mat option \<Rightarrow> int \<Rightarrow> int \<Rightarrow> int \<Rightarrow> heap \<times> (py_error + (marray \<times> mat))" where
  "oavol al oa2d oa3d h x y z v xx yy zz pmap weight nx ny =
     (case oavol_args al oa2d h x y z v xx yy zz pmap weight nx ny of
        (h1, Inl e) \<Rightarrow> (h1, Inl e)
      | (h1, Inr b) \<Rightarrow>
          (case oa3d b of
             Inl e \<Rightarrow> (h1, Inl e)
           | Inr (vv, err, pmap1) \<Rightarrow> (h1, oavol_ret zz vv pmap1)))"

subsection \<open>Arrays that a normalisation leaves alone\<close>

text \<open>
  The normalisation of \<open>d\<close> writes into the buffer of \<open>d\<close>. It leaves an array
  \<open>c\<close> as it is when \<open>c\<close> has another buffer, or when \<open>c\<close> holds finite values
  only.
\<close>

definition untouched :: "heap \<Rightarrow> ndarray \<Rightarrow> ndarray \<Rightarrow> bool" where
  "untouched h d c = (buf d \<noteq> buf c \<or> list_all isfinite (h (buf c)))"

section \<open>roms/obsgen.py\<close>

text \<open>
  Python values as far as the reader classes handle them: \<open>None\<close>, numbers, tuples,
  strings, opaque objects (a grid, a date, an array), and the modules, classes and
  builtins that names of the module are bound to.
\<close>

datatype pyval =
    PNone
  | PNum real
  | PTuple "pyval list"
  | PStr string
  | PObj nat
  | PModule string
  | PClass string
  | PBuiltin string

text \<open>The value a name stands for, by the same resolution order as \<open>lookup_name\<close>.\<close>

definition lookup_var ::
  "(string \<times> pyval) list \<Rightarrow> (string \<times> pyval) list \<Rightarrow> string \<Rightarrow> py_error + pyval" where
  "lookup_var locals globals n =
     (case lookup_name (map fst locals) (map fst globals) n of
        Inl e \<Rightarrow> Inl e
      | Inr _ \<Rightarrow>
          Inr (case map_of (locals @ globals) n of Some v \<Rightarrow> v | None \<Rightarrow> PBuiltin n))"

text \<open>The names bound at module level in \<open>obsgen.py\<close>: its imports and its classes.\<close>

definition obsgen_globals :: "(string \<times> pyval) list" where
  "obsgen_globals =
     [(''print_function'', PObj 0), (''np'', PModule ''numpy''),
      (''netCDF4'', PModule ''netCDF4''), (''seapy'', PModule ''seapy''),
      (''datetime'', PModule ''datetime''), (''warn'', PBuiltin ''warnings.warn''),
      (''obsgen'', PClass ''obsgen''), (''aquarius_sss'', PClass ''aquarius_sss''),
      (''argo_ctd'', PClass ''argo_ctd''), (''aviso_sla_map'', PClass ''aviso_sla_map''),
      (''ostia_sst_map'', PClass ''ostia_sst_map''),
      (''seaglider_profile'', PClass ''seaglider_profile''),
      (''tao_mooring'', PClass ''tao_mooring'')]"

text \<open>
  The two functions of the \<open>seapy\<close> package that the constructors call. They are not
  part of the module; each may return or raise.
\<close>

record seapy_ext =
  asgrid :: "pyval \<Rightarrow> py_error + pyval"
  convolve_mask :: "pyval \<Rightarrow> py_error + pyval"

text \<open>An instance is its attribute dictionary.\<close>

type_synonym pyobj = "string \<rightharpoonup> pyval"

subsection \<open>Constructors\<close>

definition obsgen_init ::
  "seapy_ext \<Rightarrow> pyobj \<Rightarrow> pyval \<Rightarrow> pyval \<Rightarrow> pyval \<Rightarrow> py_error + pyobj" where
  "obsgen_init ext self grid dt reftime =
     (case asgrid ext grid of
        Inl e \<Rightarrow> Inl e
      | Inr g \<Rightarrow> Inr (self(''grid'' \<mapsto> g, ''dt'' \<mapsto> dt, ''epoch'' \<mapsto> reftime)))"

text \<open>
  The last statement of every subclass constructor,
  \<open>super().__init__(grid, dt, epoch)\<close>: the three argument names are evaluated from
  left to right in the constructor's scope, then the base constructor runs.
\<close>

definition super_init ::
  "seapy_ext \<Rightarrow> pyobj \<Rightarrow> (string \<times> pyval) list \<Rightarrow> py_error + pyobj" where
  "super_init ext self locals =
     (case lookup_var locals obsgen_globals ''grid'' of
        Inl e \<Rightarrow> Inl e
      | Inr grid \<Rightarrow>
          (case lookup_var locals obsgen_globals ''dt'' of
             Inl e \<Rightarrow> Inl e
           | Inr dt \<Rightarrow>
               (case lookup_var locals obsgen_globals ''epoch'' of
                  Inl e \<Rightarrow> Inl e
                | Inr epoch \<Rightarrow> obsgen_init ext self grid dt epoch)))"

text \<open>\<open>self.name = default if arg is None else arg\<close>, as each constructor writes it.\<close>

definition set_limits :: "pyobj \<Rightarrow> string \<Rightarrow> pyval \<Rightarrow> pyval \<Rightarrow> pyobj" where
  "set_limits self name arg dflt = (if arg = PNone then self(name \<mapsto> dflt) else self(name \<mapsto> arg))"

definition aquarius_sss_init ::
  "seapy_ext \<Rightarrow> pyobj \<Rightarrow> pyval \<Rightarrow> pyval \<Rightarrow> pyval \<Rightarrow> pyval \<Rightarrow> pyval \<Rightarrow> py_error + pyobj" where
  "aquarius_sss_init ext self grid dt reftime salt_limits salt_error =
     (let self1 = set_limits self ''salt_limits'' salt_limits (PTuple [PNum 10, PNum 36]);
          self2 = self1(''salt_error'' \<mapsto> salt_error)
      in super_init ext self2
           [(''self'', PObj 1), (''grid'', grid), (''dt'', dt), (''reftime'', reftime),
            (''salt_limits'', salt_limits), (''salt_error'', salt_error)])"

definition argo_ctd_init ::
  "seapy_ext \<Rightarrow> pyobj \<Rightarrow> pyval \<Rightarrow> pyval \<Rightarrow> pyval \<Rightarrow> pyval \<Rightarrow> pyval \<Rightarrow> pyval \<Rightarrow> pyval
     \<Rightarrow> py_error + pyobj" where
  "argo_ctd_init ext self grid dt reftime temp_limits salt_limits temp_error salt_error =
     (let self1 = set_limits self ''temp_limits'' temp_limits (PTuple [PNum 5, PNum 30]);
          self2 = set_limits self1 ''salt_limits'' salt_limits (PTuple [PNum 10, PNum 35.5]);
          self3 = self2(''temp_error'' \<mapsto> temp_error);
          self4 = self3(''salt_error'' \<mapsto> salt_error)
      in super_init ext self4
           [(''self'', PObj 1), (''grid'', grid), (''dt'', dt), (''reftime'', reftime),
            (''temp_limits'', temp_limits), (''salt_limits'', salt_limits),
            (''temp_error'', temp_error), (''salt_error'', salt_error)])"

definition aviso_sla_map_init ::
  "seapy_ext \<Rightarrow> pyobj \<Rightarrow> pyval \<Rightarrow> pyval \<Rightarrow> pyval \<Rightarrow> pyval \<Rightarrow> pyval \<Rightarrow> py_error + pyobj" where
  "aviso_sla_map_init ext self grid dt reftime ssh_mean ssh_error =
     (case (if ssh_mean \<noteq> PNone
            then (case convolve_mask ext ssh_mean of
                    Inl e \<Rightarrow> Inl e
                  | Inr m \<Rightarrow> Inr (self(''ssh_mean'' \<mapsto> m)))
            else Inr (self(''ssh_mean'' \<mapsto> PNone))) of
        Inl e \<Rightarrow> Inl e
      | Inr self1 \<Rightarrow>
          (let self2 = self1(''ssh_error'' \<mapsto> ssh_error)
           in super_init ext self2
                [(''self'', PObj 1), (''grid'', grid), (''dt'', dt), (''reftime'', reftime),
                 (''ssh_mean'', ssh_mean), (''ssh_error'', ssh_error)]))"

definition ostia_sst_map_init ::
  "seapy_ext \<Rightarrow> pyobj \<Rightarrow> pyval \<Rightarrow> pyval \<Rightarrow> pyval \<Rightarrow> pyval \<Rightarrow> pyval \<Rightarrow> py_error + pyobj" where
  "ostia_sst_map_init ext self grid dt reftime temp_error temp_limits =
     (let self1 = self(''temp_error'' \<mapsto> temp_error);
          self2 = set_limits self1 ''temp_limits'' temp_limits (PTuple [PNum 2, PNum 35])
      in super_init ext self2
           [(''self'', PObj 1), (''grid'', grid), (''dt'', dt), (''reftime'', reftime),
            (''temp_error'', temp_error), (''temp_limits'', temp_limits)])"

definition seaglider_profile_init ::
  "seapy_ext \<Rightarrow> pyobj \<Rightarrow> pyval \<Rightarrow> pyval \<Rightarrow> pyval \<Rightarrow> pyval \<Rightarrow> pyval \<Rightarrow> pyval \<Rightarrow> pyval \<Rightarrow> pyval
     \<Rightarrow> py_error + pyobj" where
  "seaglider_profile_init ext self grid dt reftime temp_limits salt_limits depth_limit
       temp_error salt_error =
     (let self1 = set_limits self ''temp_limits'' temp_limits (PTuple [PNum 5, PNum 30]);
          self2 = set_limits self1 ''salt_limits'' salt_limits (PTuple [PNum 31, PNum 35.5]);
          self3 = self2(''depth_limit'' \<mapsto> depth_limit);
          self4 = self3(''temp_error'' \<mapsto> temp_error);
          self5 = self4(''salt_error'' \<mapsto> salt_error)
      in super_init ext self5
           [(''self'', PObj 1), (''grid'', grid), (''dt'', dt), (''reftime'', reftime),
            (''temp_limits'', temp_limits), (''salt_limits'', salt_limits),
            (''depth_limit'', depth_limit), (''temp_error'', temp_error),
            (''salt_error'', salt_error)])"

definition tao_mooring_init ::
  "seapy_ext \<Rightarrow> pyobj \<Rightarrow> pyval \<Rightarrow> pyval \<Rightarrow> pyval \<Rightarrow> pyval \<Rightarrow> pyval \<Rightarrow> pyval \<Rightarrow> pyval \<Rightarrow> pyval
     \<Rightarrow> pyval \<Rightarrow> pyval \<Rightarrow> pyval \<Rightarrow> pyval \<Rightarrow> py_error + pyobj" where
  "tao_mooring_init ext self grid dt reftime temp_limits salt_limits u_limits v_limits
       depth_limit temp_error salt_error u_error v_error =
     (let self1 = set_limits self ''temp_limits'' temp_limits (PTuple [PNum 5, PNum 30]);
          self2 = set_limits self1 ''salt_limits'' salt_limits (PTuple [PNum 31, PNum 35.5]);
          self3 = set_limits self2 ''u_limits'' u_limits (PTuple [PNum (- 3), PNum 3]);
          self4 = set_limits self3 ''v_limits'' v_limits (PTuple [PNum (- 3), PNum 3]);
          self5 = self4(''depth_limit'' \<mapsto> depth_limit);
          self6 = self5(''temp_error'' \<mapsto> temp_error);
          self7 = self6(''salt_error'' \<mapsto> salt_error);
          self8 = self7(''u_error'' \<mapsto> u_error);
          self9 = self8(''v_error'' \<mapsto> v_error)
      in super_init ext self9
           [(''self'', PObj 1), (''grid'', grid), (''dt'', dt), (''reftime'', reftime),
            (''temp_limits'', temp_limits), (''salt_limits'', salt_limits),
            (''u_limits'', u_limits), (''v_limits'', v_limits),
            (''depth_limit'', depth_limit), (''temp_error'', temp_error),
            (''salt_error'', salt_error), (''u_error'', u_error), (''v_error'', v_error)])"

text \<open>
  A constructor call names the class and gives its keyword arguments (in the order of
  the \<open>def\<close>); \<open>grid\<close>, \<open>dt\<close> and \<open>reftime\<close> are common to all six. Calling the
  class runs \<open>__init__\<close> on a new, empty instance and returns the instance if that
  does not raise.
\<close>

datatype reader =
    Aquarius_sss pyval pyval
  | Argo_ctd pyval pyval pyval pyval
  | Aviso_sla_map pyval pyval
  | Ostia_sst_map pyval pyval
  | Seaglider_profile pyval pyval pyval pyval pyval
  | Tao_mooring pyval pyval pyval pyval pyval pyval pyval pyval pyval

fun new_reader :: "seapy_ext \<Rightarrow> pyval \<Rightarrow> pyval \<Rightarrow> pyval \<Rightarrow> reader \<Rightarrow> py_error + pyobj" where
  "new_reader ext grid dt reftime (Aquarius_sss slim serr) =
     aquarius_sss_init ext Map.empty grid dt reftime slim serr"
| "new_reader ext grid dt reftime (Argo_ctd tlim slim terr serr) =
     argo_ctd_init ext Map.empty grid dt reftime tlim slim terr serr"
| "new_reader ext grid dt reftime (Aviso_sla_map smean serr) =
     aviso_sla_map_init ext Map.empty grid dt reftime smean serr"
| "new_reader ext grid dt reftime (Ostia_sst_map terr tlim) =
     ostia_sst_map_init ext Map.empty grid dt reftime terr tlim"
| "new_reader ext grid dt reftime (Seaglider_profile tlim slim dlim terr serr) =
     seaglider_profile_init ext Map.empty grid dt reftime tlim slim dlim terr serr"
| "new_reader ext grid dt reftime (Tao_mooring tlim slim ulim vlim dlim terr serr uerr verr) =
     tao_mooring_init ext Map.empty grid dt reftime tlim slim ulim vlim dlim terr serr uerr verr"

subsection \<open>Batch conversion\<close>

text \<open>
  What \<open>batch_files\<close> needs of an observation structure: its \<open>time\<close> array; the
  second field tells structures apart.
\<close>

record obs =
  otime :: "pyfloat list"
  oid :: nat

text \<open>
  The effects \<open>batch_files\<close> has: lines printed, warnings issued (every call of
  \<open>warn\<close>, which under the default warning filter returns), and files written (by a
  \<open>to_netcdf\<close> that returned).
\<close>

record world =
  printed :: "string list"
  warned :: "string list"
  written :: "(string \<times> obs) list"

text \<open>\<open>out_files\<close> is either one string with \<open>#\<close> as a placeholder or a list of names.\<close>

datatype out_files = OutPattern string | OutList "string list"

text \<open>\<open>int(t)\<close> of a float truncates towards zero and raises on a non-finite value.\<close>

fun py_int :: "pyfloat \<Rightarrow> py_error + int" where
  "py_int (Fin r) = Inr (if 0 \<le> r then \<lfloor>r\<rfloor> else \<lceil>r\<rceil>)"
| "py_int NaN = Inl ValueError"
| "py_int PosInf = Inl OverflowError"
| "py_int NegInf = Inl OverflowError"

function str_nat :: "nat \<Rightarrow> string" where
  "str_nat n =
     (if n < 10 then [''0123456789'' ! n]
      else str_nat (n div 10) @ [''0123456789'' ! (n mod 10)])"
  by pat_completeness auto
termination
  by (relation "measure (\<lambda>n. n)") auto

text \<open>\<open>"{:05d}".format(i)\<close>: zero padding to width five, the sign counted in.\<close>

definition format05 :: "int \<Rightarrow> string" where
  "format05 i =
     (if 0 \<le> i
      then (let s = str_nat (nat i) in replicate (5 - length s) CHR ''0'' @ s)
      else (let s = str_nat (nat (- i)) in CHR ''-'' # replicate (4 - length s) CHR ''0'' @ s))"

text \<open>\<open>re.compile('\#').sub(repl, s)\<close>: every \<open>#\<close> of \<open>s\<close> becomes \<open>repl\<close>.\<close>

definition sub_hash :: "string \<Rightarrow> string \<Rightarrow> string" where
  "sub_hash repl s = concat (map (\<lambda>c. if c = CHR ''#'' then repl else [c]) s)"

text \<open>The name of the output file for the \<open>n\<close>-th input.\<close>

definition out_name :: "out_files \<Rightarrow> nat \<Rightarrow> obs \<Rightarrow> py_error + string" where
  "out_name out n ob =
     (case out of
        OutPattern pat \<Rightarrow>
          (case otime ob of
             [] \<Rightarrow> Inl IndexError
           | t # _ \<Rightarrow>
               (case py_int t of
                  Inl e \<Rightarrow> Inl e
                | Inr i \<Rightarrow> Inr (sub_hash (format05 i) pat)))
      | OutList names \<Rightarrow>
          (if n < length names then Inr (names ! n) else Inl IndexError))"

text \<open>
  The body of the \<open>try\<close> after the \<open>print\<close>: convert the file, and write the result
  unless it is \<open>None\<close>. \<open>convert_file\<close> is the subclass's method and \<open>to_netcdf\<close>
  the method of the observation structure; both are given as functions that return or
  raise. The result is the exception raised, or the file written, if any.
\<close>

definition convert_and_write ::
  "(string \<Rightarrow> py_error + obs option) \<Rightarrow> (obs \<Rightarrow> string \<Rightarrow> py_error + unit) \<Rightarrow> out_files
     \<Rightarrow> nat \<Rightarrow> string \<Rightarrow> py_error + (string \<times> obs) option" where
  "convert_and_write convert_file to_netcdf out n file =
     (case convert_file file of
        Inl e \<Rightarrow> Inl e
      | Inr None \<Rightarrow> Inr None
      | Inr (Some ob) \<Rightarrow>
          (case out_name out n ob of
             Inl e \<Rightarrow> Inl e
           | Inr name \<Rightarrow>
               (case to_netcdf ob name of
                  Inl e \<Rightarrow> Inl e
                | Inr _ \<Rightarrow> Inr (Some (name, ob)))))"

text \<open>One round of the loop: the \<open>try\<close> block and its bare \<open>except\<close>.\<close>

definition batch_step ::
  "(string \<Rightarrow> py_error + obs option) \<Rightarrow> (obs \<Rightarrow> string \<Rightarrow> py_error + unit) \<Rightarrow> out_files
     \<Rightarrow> world \<Rightarrow> nat \<Rightarrow> string \<Rightarrow> world" where
  "batch_step convert_file to_netcdf out w n file =
     (let w1 = w\<lparr>printed := printed w @ [file]\<rparr>
      in case convert_and_write convert_file to_netcdf out n file of
           Inl e \<Rightarrow> w1\<lparr>warned := warned w1 @ [''WARNING: '' @ file @ '' cannot be processed.'']\<rparr>
         | Inr None \<Rightarrow> w1
         | Inr (Some wr) \<Rightarrow> w1\<lparr>written := written w1 @ [wr]\<rparr>)"

fun batch_loop ::
  "(string \<Rightarrow> py_error + obs option) \<Rightarrow> (obs \<Rightarrow> string \<Rightarrow> py_error + unit) \<Rightarrow> out_files
     \<Rightarrow> world \<Rightarrow> nat \<Rightarrow> string list \<Rightarrow> world" where
  "batch_loop convert_file to_netcdf out w n [] = w"
| "batch_loop convert_file to_netcdf out w n (file # files) =
     batch_loop convert_file to_netcdf out (batch_step convert_file to_netcdf out w n file)
       (Suc n) files"

definition batch_files ::
  "(string \<Rightarrow> py_error + obs option) \<Rightarrow> (obs \<Rightarrow> string \<Rightarrow> py_error + unit) \<Rightarrow> world
     \<Rightarrow> string list \<Rightarrow> out_files \<Rightarrow> world" where
  "batch_files convert_file to_netcdf w in_files out =
     batch_loop convert_file to_netcdf out w 0 in_files"

section \<open>The weight-map builder of the specification\<close>

text \<open>
  The library routine \<open>seapy.oalib.oa2d\<close> builds the weight map. It is compiled
  Fortran and its source is not available; sections 4.2 to 4.4 and 7 of the specification
  describe what it is to do. The definitions of this section follow that description.
\<close>

text \<open>
  Modelled from the spec: a point of a point set (source of \<open>oa2d\<close> missing). Its
  coordinates are plain real numbers; a pair with a non-finite coordinate is no point.
\<close>

fun point_of :: "pyfloat \<times> pyfloat \<Rightarrow> (real \<times> real) option" where
  "point_of (Fin a, Fin b) = Some (a, b)"
| "point_of _ = None"

text \<open>Modelled from the spec: the square of the distance of section 4.2,
  \<open>sqrt((dx/nx)^2 + (dy/ny)^2)\<close> (source of \<open>oa2d\<close> missing). The square orders points as the
  distance does.
\<close>

definition sq_dist :: "int \<Rightarrow> int \<Rightarrow> real \<times> real \<Rightarrow> real \<times> real \<Rightarrow> real" where
  "sq_dist nx ny p q =
     ((fst q - fst p) / real_of_int nx)\<^sup>2 + ((snd q - snd p) / real_of_int ny)\<^sup>2"

text \<open>Modelled from the spec: the valid source points with their index and their
  squared distance to a query point (source of \<open>oa2d\<close> missing).
\<close>

definition candidates ::
  "int \<Rightarrow> int \<Rightarrow> (pyfloat \<times> pyfloat) list \<Rightarrow> real \<times> real \<Rightarrow> (nat \<times> real) list" where
  "candidates nx ny src q =
     concat (map (\<lambda>(i, s). case point_of s of
                              None \<Rightarrow> []
                            | Some p \<Rightarrow> [(i, sq_dist nx ny p q)])
                 (enumerate 0 src))"

text \<open>Modelled from the spec: the neighbour selector of section 4.2 (source of
  \<open>oa2d\<close> missing): the indices of up to \<open>K\<close> valid source points by ascending distance, all
  of them when there are fewer.
\<close>

definition nearest :: "int \<Rightarrow> int \<Rightarrow> nat \<Rightarrow> (pyfloat \<times> pyfloat) list \<Rightarrow> real \<times> real \<Rightarrow> nat list" where
  "nearest nx ny K src q = take K (map fst (sort_key snd (candidates nx ny src q)))"

text \<open>Modelled from the spec: one row of the weight map, section 4.4 (source of
  \<open>oa2d\<close> missing): the one-based indices of the neighbours of a destination point, padded
  with zeros to \<open>K\<close> entries; a row of zeros for a destination with no neighbour.
\<close>

definition weight_row ::
  "int \<Rightarrow> int \<Rightarrow> nat \<Rightarrow> (pyfloat \<times> pyfloat) list \<Rightarrow> pyfloat \<times> pyfloat \<Rightarrow> pyfloat list" where
  "weight_row nx ny K src dst =
     (case point_of dst of
        None \<Rightarrow> replicate K (Fin 0)
      | Some q \<Rightarrow>
          (let ns = nearest nx ny K src q
           in map (\<lambda>i. Fin (real (Suc i))) ns @ replicate (K - length ns) (Fin 0)))"

text \<open>Modelled from the spec: \<open>build_weight_map(source_points, destination_points,
  K, nx, ny)\<close> of section 4.4 (source of \<open>oa2d\<close> missing): a table with one row for every
  destination point and \<open>K\<close> columns.
\<close>

definition build_weight_map ::
  "(pyfloat \<times> pyfloat) list \<Rightarrow> (pyfloat \<times> pyfloat) list \<Rightarrow> nat \<Rightarrow> int \<Rightarrow> int \<Rightarrow> mat" where
  "build_weight_map src dst K nx ny =
     \<lparr>nrows = length dst, ncols = K, cells = concat (map (weight_row nx ny K src) dst)\<rparr>"

text \<open>
  Modelled from the spec: the library routine \<open>oa2d\<close>. It rejects an invalid
  configuration (section 7), builds the weight map when it is handed the all-zero table
  the facade allocates for "none", and otherwise uses the table it is handed. The
  estimator of section 4.5 weights by \<open>exp(-d^2)\<close>, which has no exact evaluation; it
  is the parameter \<open>estimate\<close>, from a weight map and the source values to the estimate
  and the error field.
\<close>

definition oa2d_spec :: "(mat \<Rightarrow> pyfloat list \<Rightarrow> pyfloat list \<times> pyfloat list) \<Rightarrow> oa2d_fun" where
  "oa2d_spec estimate a =
     (if a_nx a \<le> 0 \<or> a_ny a \<le> 0 \<or> ncols (a_pmap a) = 0
         \<or> length (a_y a) \<noteq> length (a_x a) \<or> length (a_d a) \<noteq> length (a_x a)
         \<or> length (a_yy a) \<noteq> length (a_xx a)
      then Inl (OtherError ''InvalidConfiguration'')
      else (let p = (if list_all (\<lambda>c. c = Fin 0) (cells (a_pmap a))
                     then build_weight_map (zip (a_x a) (a_y a)) (zip (a_xx a) (a_yy a))
                            (ncols (a_pmap a)) (a_nx a) (a_ny a)
                     else a_pmap a);
                (est, err) = estimate p (a_d a)
            in Inr (est, err, p)))"

section \<open>Sample inputs\<close>

text \<open>
  A library that always returns: an all-zero estimate of the size of the destination and
  the weight map as it was handed in. It and the other definitions of this section serve
  to run the code on concrete inputs.
\<close>

definition oa2d_zero :: oa2d_fun where
  "oa2d_zero a =
     Inr (replicate (length (a_xx a)) (Fin 0), replicate (length (a_xx a)) (Fin 0), a_pmap a)"

definition oa3d_zero :: oa3d_fun where
  "oa3d_zero b =
     (let m = \<lparr>nrows = nrows (b_zz b), ncols = ncols (b_zz b),
                cells = replicate (nrows (b_zz b) * ncols (b_zz b)) (Fin 0)\<rparr>
      in Inr (m, m, b_pmap b))"

text \<open>An estimator that gives every destination row the value zero.\<close>

definition estimate_zero :: "mat \<Rightarrow> pyfloat list \<Rightarrow> pyfloat list \<times> pyfloat list" where
  "estimate_zero p d = (replicate (nrows p) (Fin 0), replicate (nrows p) (Fin 0))"

text \<open>
  A platform with 64-bit sizes and 16 GiB of memory for a table of 8-byte numbers.
\<close>

definition sample_alloc :: allocator where
  "sample_alloc n k =
     (if 2 ^ 63 \<le> k \<or> 2 ^ 63 \<le> 8 * n * k then TooBig
      else if 2 ^ 34 < 8 * n * k then NoMemory
      else Allocated)"

text \<open>
  A store with two source points, one destination point, a value array with a
  \<open>NaN\<close>, a value array of the wrong length, one-level depth and value arrays, and
  (at address 9) an array of x coordinates that holds a \<open>NaN\<close>.
\<close>

definition sample_heap :: heap where
  "sample_heap =
     (\<lambda>_. [])(0 := [Fin 0, Fin 1], 1 := [Fin 0, Fin 0], 2 := [NaN, Fin 5], 3 := [Fin 0],
              4 := [Fin 0], 5 := [Fin 1, PosInf], 6 := [NaN, Fin 7], 7 := [Fin 1],
              8 := [Fin 1, Fin 2, Fin 3], 9 := [NaN, Fin 1])"

text \<open>A \<open>seapy\<close> whose \<open>convolve_mask\<close> rejects its argument.\<close>

definition seapy_strict :: seapy_ext where
  "seapy_strict = \<lparr>asgrid = (\<lambda>g. Inr g), convolve_mask = (\<lambda>m. Inl TypeError)\<rparr>"

text \<open>
  A converter that fails on the file \<open>a\<close>, finds nothing in the file \<open>b\<close>, gives
  an observation structure (number 2) starting at day 9 for the file \<open>d\<close> and one
  (number 1) starting at day 3.7 for any other file; and a writer that fails on the
  structure number 2 and succeeds on every other one.
\<close>

definition sample_convert :: "string \<Rightarrow> py_error + obs option" where
  "sample_convert f =
     (if f = ''a'' then Inl (OtherError ''OSError'')
      else if f = ''b'' then Inr None
      else if f = ''d'' then Inr (Some \<lparr>otime = [Fin 9], oid = 2\<rparr>)
      else Inr (Some \<lparr>otime = [Fin 3.7], oid = 1\<rparr>))"

definition sample_to_netcdf :: "obs \<Rightarrow> string \<Rightarrow> py_error + unit" where
  "sample_to_netcdf ob name = (if oid ob = 2 then Inl (OtherError ''OSError'') else Inr ())"

section \<open>Properties of oa.py\<close>

subsection \<open>The store and the two stages of an entry point\<close>

lemma map_fix_value_id: "\<forall>v\<in>set dat. isfinite v \<Longrightarrow> map fix_value dat = dat"
  by (induction dat) (simp_all add: fix_value_def)

lemma fst_fix_invalid: "fst (fix_invalid h a) = h(buf a := map fix_value (h (buf a)))"
proof (cases "list_ex (\<lambda>b. b) (map (\<lambda>v. \<not> isfinite v) (h (buf a)))")
  case True
  then show ?thesis by (simp add: fix_invalid_def Let_def)
next
  case False
  then have "\<forall>v\<in>set (h (buf a)). isfinite v"
    by (simp add: list_ex_iff)
  then have "map fix_value (h (buf a)) = h (buf a)"
    by (rule map_fix_value_id)
  with False show ?thesis by (simp add: fix_invalid_def Let_def)
qed

lemma base_fix_invalid: "base (snd (fix_invalid h a)) = a"
  by (simp add: fix_invalid_def Let_def)

lemma length_fixed: "length (fst (fix_invalid h a) b) = length (h b)"
  by (simp add: fst_fix_invalid)

text \<open>An array that the normalisation leaves alone reads the same afterwards.\<close>

lemma ravel_untouched:
  "untouched h d c \<Longrightarrow> ravel (fst (fix_invalid h d)) c = ravel h c"
  by (auto simp add: untouched_def fst_fix_invalid ravel_def list_all_iff map_fix_value_id)

lemma fst_oasurf_args:
  "fst (oasurf_args al h x y d xx yy pmap weight nx ny) = fst (fix_invalid h d)"
  by (simp add: oasurf_args_def Let_def split: prod.split sum.split)

lemma fst_oasurf:
  "fst (oasurf al oa2d h x y d xx yy pmap weight nx ny)
     = fst (oasurf_args al h x y d xx yy pmap weight nx ny)"
  by (simp add: oasurf_def split: prod.split sum.split)

lemma fst_oavol_args:
  "fst (oavol_args al oa2d h x y z v xx yy zz pmap weight nx ny) = fst (fix_invalid h z)"
  by (simp add: oavol_args_def Let_def split: prod.split sum.split)

lemma fst_oavol:
  "fst (oavol al oa2d oa3d h x y z v xx yy zz pmap weight nx ny)
     = fst (oavol_args al oa2d h x y z v xx yy zz pmap weight nx ny)"
  by (simp add: oavol_def split: prod.split sum.split)

lemma ones_unbound: "lookup_name oavol_locals oa_globals ''ones'' = Inl (NameError ''ones'')"
  by (simp add: lookup_name_def oavol_locals_def oa_globals_def py_builtins_def)

lemma oavol_args_None: "isl (snd (oavol_args al oa2d h x y z v xx yy zz None weight nx ny))"
  by (simp add: oavol_args_def oavol_pmap_def ones_unbound Let_def
        split: prod.split sum.split)

text \<open>What \<open>oasurf\<close> and \<open>oavol\<close> hand to the library, spelled out.\<close>

lemma snd_oasurf_args:
  "snd (oasurf_args al h x y d xx yy pmap weight nx ny) =
     (let h1 = fst (fix_invalid h d);
          nx1 = (if nx = 0 then ny else nx);
          ny1 = (if ny = 0 then nx1 else ny)
      in case (case pmap of None \<Rightarrow> np_zeros al (size_nd xx) weight | Some p \<Rightarrow> Inr p) of
           Inl e \<Rightarrow> Inl e
         | Inr p \<Rightarrow> Inr \<lparr>a_x = ravel h1 x, a_y = ravel h1 y, a_d = ravel h1 d,
                         a_xx = ravel h1 xx, a_yy = ravel h1 yy,
                         a_nx = nx1, a_ny = ny1, a_pmap = p\<rparr>)"
proof -
  obtain h1 dm where fx: "fix_invalid h d = (h1, dm)"
    by (cases "fix_invalid h d")
  have "base dm = d"
    using base_fix_invalid [of h d] fx by simp
  then show ?thesis
    by (simp add: oasurf_args_def fx Let_def split: sum.split)
qed

lemma snd_oavol_args_Some:
  "snd (oavol_args al oa2d h x y z v xx yy zz (Some p) weight nx ny) =
     (let h1 = fst (fix_invalid h z);
          nx1 = (if nx = 0 then ny else nx);
          ny1 = (if ny = 0 then nx1 else ny)
      in case reshape_lead (shape z) (ravel h1 z) of
           Inl e \<Rightarrow> Inl e
         | Inr zr \<Rightarrow>
             (case reshape_lead (shape v) (ravel h1 v) of
                Inl e \<Rightarrow> Inl e
              | Inr vr \<Rightarrow>
                  (case reshape_lead (shape zz) (ravel h1 zz) of
                     Inl e \<Rightarrow> Inl e
                   | Inr zzr \<Rightarrow>
                       Inr \<lparr>b_x = ravel h1 x, b_y = ravel h1 y,
                            b_z = transpose_m zr, b_v = transpose_m vr,
                            b_xx = ravel h1 xx, b_yy = ravel h1 yy,
                            b_zz = transpose_m zzr,
                            b_nx = nx1, b_ny = ny1, b_pmap = p\<rparr>)))"
proof -
  obtain h1 zm where fx: "fix_invalid h z = (h1, zm)"
    by (cases "fix_invalid h z")
  have "base zm = z"
    using base_fix_invalid [of h z] fx by simp
  then show ?thesis
    by (simp add: oavol_args_def oavol_pmap_def fx Let_def split: sum.split)
qed

lemma snd_oasurf:
  "snd (oasurf al oa2d h x y d xx yy pmap weight nx ny) =
     (case snd (oasurf_args al h x y d xx yy pmap weight nx ny) of
        Inl e \<Rightarrow> Inl e
      | Inr a \<Rightarrow>
          (case oa2d a of
             Inl e \<Rightarrow> Inl e
           | Inr (vv, err, p) \<Rightarrow> oasurf_ret xx vv p))"
  by (simp add: oasurf_def split: prod.split sum.split)

lemma snd_oavol:
  "snd (oavol al oa2d oa3d h x y z v xx yy zz pmap weight nx ny) =
     (case snd (oavol_args al oa2d h x y z v xx yy zz pmap weight nx ny) of
        Inl e \<Rightarrow> Inl e
      | Inr b \<Rightarrow>
          (case oa3d b of
             Inl e \<Rightarrow> Inl e
           | Inr (vv, err, p) \<Rightarrow> oavol_ret zz vv p))"
  by (simp add: oavol_def split: prod.split sum.split)

lemma isl_reshape_lead:
  "isl (reshape_lead sh dat) \<longleftrightarrow> (sh = [] \<or> hd sh = 0 \<or> length dat mod hd sh \<noteq> 0)"
  by (cases sh) (simp_all add: reshape_lead_def)

lemma isl_reshape_lead_fixed:
  "isl (reshape_lead sh (ravel (fst (fix_invalid h a)) b)) = isl (reshape_lead sh (ravel h b))"
  by (simp add: isl_reshape_lead ravel_def length_fixed)

lemma np_zeros_raises:
  "np_zeros al n k = Inl e \<longleftrightarrow>
     (k < 0 \<and> e = ValueError)
     \<or> (0 \<le> k \<and> al n (nat k) = TooBig \<and> e = ValueError)
     \<or> (0 \<le> k \<and> al n (nat k) = NoMemory \<and> e = MemoryError)"
  by (cases "al n (nat k)") (auto simp add: np_zeros_def)

lemma replicate_two: "replicate 2 c = [c, c]"
  by (simp add: numeral_2_eq_2)

lemma zeros_one_by_two:
  "np_zeros sample_alloc (Suc 0) 2 = Inr \<lparr>nrows = 1, ncols = 2, cells = [Fin 0, Fin 0]\<rparr>"
  by (simp add: np_zeros_def sample_alloc_def replicate_two)

subsection \<open>The three-dimensional entry point without a weight map\<close>

text \<open>
  Claim C1. The claim: when \<open>oavol\<close> is called without a weight map, it builds one by
  running the two-dimensional routine on a unit field and then produces the per-level
  estimates. The code: on every call without a weight map \<open>oavol\<close> raises, for every
  library, every platform and every input. When the allocation of the map raises (a
  negative neighbour count, a table beyond numpy's limits, or too little memory), that
  exception is the outcome. Otherwise the arguments of the call that is to build the map
  are evaluated, and the name \<open>ones\<close> (written for \<open>np.ones\<close>) is bound nowhere, so
  \<open>NameError\<close> is raised before either library routine is called.
\<close>

theorem oavol_without_pmap_raises:
  "snd (oavol al oa2d oa3d h x y z v xx yy zz None weight nx ny)
     = (case np_zeros al (size_nd xx) weight of
          Inl e \<Rightarrow> Inl e
        | Inr p \<Rightarrow> Inl (NameError ''ones''))"
  by (simp add: oavol_def oavol_args_def oavol_pmap_def ones_unbound Let_def
        split: prod.split sum.split)

text \<open>Claim C1, at a well-formed call with two source points and one level.\<close>

theorem oavol_without_pmap_raises_witness:
  "snd (oavol sample_alloc oa2d_zero oa3d_zero sample_heap
          \<lparr>buf = 0, shape = [2]\<rparr> \<lparr>buf = 1, shape = [2]\<rparr>
          \<lparr>buf = 5, shape = [1, 2]\<rparr> \<lparr>buf = 6, shape = [1, 2]\<rparr>
          \<lparr>buf = 3, shape = [1]\<rparr> \<lparr>buf = 4, shape = [1]\<rparr> \<lparr>buf = 7, shape = [1, 1]\<rparr>
          None 10 2 2)
     = Inl (NameError ''ones'')"
  using oavol_without_pmap_raises [of sample_alloc oa2d_zero oa3d_zero sample_heap
          "\<lparr>buf = 0, shape = [2]\<rparr>" "\<lparr>buf = 1, shape = [2]\<rparr>"
          "\<lparr>buf = 5, shape = [1, 2]\<rparr>" "\<lparr>buf = 6, shape = [1, 2]\<rparr>"
          "\<lparr>buf = 3, shape = [1]\<rparr>" "\<lparr>buf = 4, shape = [1]\<rparr>" "\<lparr>buf = 7, shape = [1, 1]\<rparr>"
          10 2 2]
  by (simp add: np_zeros_def sample_alloc_def size_nd_def)

subsection \<open>Invalid configurations\<close>

text \<open>
  Claim C3, as stated, fails: with both scales zero, a neighbour count of zero and a value
  array longer than the coordinate arrays, \<open>oasurf\<close> raises nothing, hands these
  arguments to the library and returns what the library returns.
\<close>

theorem invalid_configuration_reaches_library:
  "snd (oasurf_args sample_alloc sample_heap \<lparr>buf = 0, shape = [2]\<rparr> \<lparr>buf = 1, shape = [2]\<rparr>
          \<lparr>buf = 8, shape = [3]\<rparr> \<lparr>buf = 3, shape = [1]\<rparr> \<lparr>buf = 4, shape = [1]\<rparr> None 0 0 0)
     = Inr \<lparr>a_x = [Fin 0, Fin 1], a_y = [Fin 0, Fin 0], a_d = [Fin 1, Fin 2, Fin 3],
            a_xx = [Fin 0], a_yy = [Fin 0], a_nx = 0, a_ny = 0,
            a_pmap = \<lparr>nrows = 1, ncols = 0, cells = []\<rparr>\<rparr>
   \<and> snd (oasurf sample_alloc oa2d_zero sample_heap \<lparr>buf = 0, shape = [2]\<rparr> \<lparr>buf = 1, shape = [2]\<rparr>
          \<lparr>buf = 8, shape = [3]\<rparr> \<lparr>buf = 3, shape = [1]\<rparr> \<lparr>buf = 4, shape = [1]\<rparr> None 0 0 0)
     = Inr (\<lparr>mshape = [1], mdata = [Fin 0], mmask = [False]\<rparr>,
            \<lparr>nrows = 1, ncols = 0, cells = []\<rparr>)"
  by (simp add: snd_oasurf oasurf_ret_def reshape_def fix_invalid_new_def oa2d_zero_def
        snd_oasurf_args fst_fix_invalid sample_heap_def np_zeros_def sample_alloc_def size_nd_def ravel_def
        fix_value_def Let_def)

text \<open>
  Claim C3, amended. The entry points do not check the configuration. \<open>oasurf\<close>
  raises before the library call exactly when no weight map is supplied and the
  allocation of the map by \<open>np.zeros([xx.size, weight])\<close> raises; and that allocation
  raises \<open>ValueError\<close> for a negative neighbour count or a table beyond numpy's size
  limits, \<open>MemoryError\<close> when the table does not fit into the memory, and nothing
  else. \<open>oavol\<close> with a weight map supplied raises before the library call exactly
  when one of \<open>z\<close>, \<open>v\<close>, \<open>zz\<close> cannot be reshaped by its leading dimension. None
  of these conditions looks at the scales, at a neighbour count of zero, or at the lengths
  of the coordinate arrays against the value array.
\<close>

theorem facade_raises_only:
  "(snd (oasurf_args al h x y d xx yy pmap weight nx ny) = Inl e
      \<longleftrightarrow> pmap = None \<and> np_zeros al (size_nd xx) weight = Inl e)
   \<and> (np_zeros al (size_nd xx) weight = Inl e
      \<longleftrightarrow> (weight < 0 \<and> e = ValueError)
          \<or> (0 \<le> weight \<and> al (size_nd xx) (nat weight) = TooBig \<and> e = ValueError)
          \<or> (0 \<le> weight \<and> al (size_nd xx) (nat weight) = NoMemory \<and> e = MemoryError))
   \<and> (isl (snd (oavol_args al oa2d h x y z v xx yy zz (Some p) weight nx ny))
      \<longleftrightarrow> isl (reshape_lead (shape z) (ravel h z)) \<or> isl (reshape_lead (shape v) (ravel h v))
          \<or> isl (reshape_lead (shape zz) (ravel h zz)))"
proof (intro conjI)
  show "snd (oasurf_args al h x y d xx yy pmap weight nx ny) = Inl e
          \<longleftrightarrow> pmap = None \<and> np_zeros al (size_nd xx) weight = Inl e"
    by (cases pmap) (auto simp add: snd_oasurf_args Let_def split: sum.splits)
next
  show "np_zeros al (size_nd xx) weight = Inl e
      \<longleftrightarrow> (weight < 0 \<and> e = ValueError)
          \<or> (0 \<le> weight \<and> al (size_nd xx) (nat weight) = TooBig \<and> e = ValueError)
          \<or> (0 \<le> weight \<and> al (size_nd xx) (nat weight) = NoMemory \<and> e = MemoryError)"
    by (rule np_zeros_raises)
next
  let ?h1 = "fst (fix_invalid h z)"
  have "isl (snd (oavol_args al oa2d h x y z v xx yy zz (Some p) weight nx ny))
          \<longleftrightarrow> isl (reshape_lead (shape z) (ravel ?h1 z))
              \<or> isl (reshape_lead (shape v) (ravel ?h1 v))
              \<or> isl (reshape_lead (shape zz) (ravel ?h1 zz))"
    by (simp add: snd_oavol_args_Some Let_def split: sum.split)
  then show "isl (snd (oavol_args al oa2d h x y z v xx yy zz (Some p) weight nx ny))
      \<longleftrightarrow> isl (reshape_lead (shape z) (ravel h z)) \<or> isl (reshape_lead (shape v) (ravel h v))
          \<or> isl (reshape_lead (shape zz) (ravel h zz))"
    by (simp only: isl_reshape_lead_fixed)
qed

text \<open>
  Claim C3, amended, at five calls: zero scales with a zero neighbour count and mismatched
  lengths (no exception from \<open>oasurf\<close>); a negative neighbour count
  (\<open>ValueError\<close>); a neighbour count of \<open>2^63\<close> (\<open>ValueError\<close>); a neighbour
  count of \<open>2^40\<close> (\<open>MemoryError\<close>); and zero scales with mismatched lengths in
  \<open>oavol\<close> (no exception).
\<close>

theorem facade_raises_only_witness:
  "\<not> isl (snd (oasurf_args sample_alloc sample_heap \<lparr>buf = 0, shape = [2]\<rparr>
          \<lparr>buf = 1, shape = [2]\<rparr> \<lparr>buf = 8, shape = [3]\<rparr> \<lparr>buf = 3, shape = [1]\<rparr>
          \<lparr>buf = 4, shape = [1]\<rparr> None 0 0 0))
   \<and> snd (oasurf_args sample_alloc sample_heap \<lparr>buf = 0, shape = [2]\<rparr> \<lparr>buf = 1, shape = [2]\<rparr>
          \<lparr>buf = 2, shape = [2]\<rparr> \<lparr>buf = 3, shape = [1]\<rparr> \<lparr>buf = 4, shape = [1]\<rparr> None (- 1) 2 2)
     = Inl ValueError
   \<and> snd (oasurf_args sample_alloc sample_heap \<lparr>buf = 0, shape = [2]\<rparr> \<lparr>buf = 1, shape = [2]\<rparr>
          \<lparr>buf = 2, shape = [2]\<rparr> \<lparr>buf = 3, shape = [1]\<rparr> \<lparr>buf = 4, shape = [1]\<rparr>
          None (2 ^ 63) 2 2)
     = Inl ValueError
   \<and> snd (oasurf_args sample_alloc sample_heap \<lparr>buf = 0, shape = [2]\<rparr> \<lparr>buf = 1, shape = [2]\<rparr>
          \<lparr>buf = 2, shape = [2]\<rparr> \<lparr>buf = 3, shape = [1]\<rparr> \<lparr>buf = 4, shape = [1]\<rparr>
          None (2 ^ 40) 2 2)
     = Inl MemoryError
   \<and> \<not> isl (snd (oavol_args sample_alloc oa2d_zero sample_heap \<lparr>buf = 0, shape = [2]\<rparr>
          \<lparr>buf = 1, shape = [2]\<rparr> \<lparr>buf = 5, shape = [1, 2]\<rparr> \<lparr>buf = 8, shape = [1, 3]\<rparr>
          \<lparr>buf = 3, shape = [1]\<rparr> \<lparr>buf = 4, shape = [1]\<rparr> \<lparr>buf = 7, shape = [1, 1]\<rparr>
          (Some \<lparr>nrows = 1, ncols = 1, cells = [Fin 1]\<rparr>) 0 0 0))"
proof (intro conjI)
  show "\<not> isl (snd (oasurf_args sample_alloc sample_heap \<lparr>buf = 0, shape = [2]\<rparr>
          \<lparr>buf = 1, shape = [2]\<rparr> \<lparr>buf = 8, shape = [3]\<rparr> \<lparr>buf = 3, shape = [1]\<rparr>
          \<lparr>buf = 4, shape = [1]\<rparr> None 0 0 0))"
  proof
    assume "isl (snd (oasurf_args sample_alloc sample_heap \<lparr>buf = 0, shape = [2]\<rparr>
          \<lparr>buf = 1, shape = [2]\<rparr> \<lparr>buf = 8, shape = [3]\<rparr> \<lparr>buf = 3, shape = [1]\<rparr>
          \<lparr>buf = 4, shape = [1]\<rparr> None 0 0 0))"
    then obtain e where "snd (oasurf_args sample_alloc sample_heap \<lparr>buf = 0, shape = [2]\<rparr>
          \<lparr>buf = 1, shape = [2]\<rparr> \<lparr>buf = 8, shape = [3]\<rparr> \<lparr>buf = 3, shape = [1]\<rparr>
          \<lparr>buf = 4, shape = [1]\<rparr> None 0 0 0) = Inl e"
      by (auto simp add: isl_def)
    with facade_raises_only [where al = sample_alloc and h = sample_heap
          and x = "\<lparr>buf = 0, shape = [2]\<rparr>" and y = "\<lparr>buf = 1, shape = [2]\<rparr>"
          and d = "\<lparr>buf = 8, shape = [3]\<rparr>" and xx = "\<lparr>buf = 3, shape = [1]\<rparr>"
          and yy = "\<lparr>buf = 4, shape = [1]\<rparr>" and pmap = None and weight = 0 and nx = 0
          and ny = 0 and e = e]
    show False
      by (simp add: sample_alloc_def size_nd_def)
  qed
next
  show "snd (oasurf_args sample_alloc sample_heap \<lparr>buf = 0, shape = [2]\<rparr> \<lparr>buf = 1, shape = [2]\<rparr>
          \<lparr>buf = 2, shape = [2]\<rparr> \<lparr>buf = 3, shape = [1]\<rparr> \<lparr>buf = 4, shape = [1]\<rparr> None (- 1) 2 2)
     = Inl ValueError"
    using facade_raises_only [where al = sample_alloc and h = sample_heap
          and x = "\<lparr>buf = 0, shape = [2]\<rparr>" and y = "\<lparr>buf = 1, shape = [2]\<rparr>"
          and d = "\<lparr>buf = 2, shape = [2]\<rparr>" and xx = "\<lparr>buf = 3, shape = [1]\<rparr>"
          and yy = "\<lparr>buf = 4, shape = [1]\<rparr>" and pmap = None and weight = "- 1" and nx = 2
          and ny = 2 and e = ValueError]
    by simp
next
  show "snd (oasurf_args sample_alloc sample_heap \<lparr>buf = 0, shape = [2]\<rparr> \<lparr>buf = 1, shape = [2]\<rparr>
          \<lparr>buf = 2, shape = [2]\<rparr> \<lparr>buf = 3, shape = [1]\<rparr> \<lparr>buf = 4, shape = [1]\<rparr>
          None (2 ^ 63) 2 2)
     = Inl ValueError"
    using facade_raises_only [where al = sample_alloc and h = sample_heap
          and x = "\<lparr>buf = 0, shape = [2]\<rparr>" and y = "\<lparr>buf = 1, shape = [2]\<rparr>"
          and d = "\<lparr>buf = 2, shape = [2]\<rparr>" and xx = "\<lparr>buf = 3, shape = [1]\<rparr>"
          and yy = "\<lparr>buf = 4, shape = [1]\<rparr>" and pmap = None and weight = "2 ^ 63" and nx = 2
          and ny = 2 and e = ValueError]
    by (simp add: sample_alloc_def size_nd_def)
next
  show "snd (oasurf_args sample_alloc sample_heap \<lparr>buf = 0, shape = [2]\<rparr> \<lparr>buf = 1, shape = [2]\<rparr>
          \<lparr>buf = 2, shape = [2]\<rparr> \<lparr>buf = 3, shape = [1]\<rparr> \<lparr>buf = 4, shape = [1]\<rparr>
          None (2 ^ 40) 2 2)
     = Inl MemoryError"
    using facade_raises_only [where al = sample_alloc and h = sample_heap
          and x = "\<lparr>buf = 0, shape = [2]\<rparr>" and y = "\<lparr>buf = 1, shape = [2]\<rparr>"
          and d = "\<lparr>buf = 2, shape = [2]\<rparr>" and xx = "\<lparr>buf = 3, shape = [1]\<rparr>"
          and yy = "\<lparr>buf = 4, shape = [1]\<rparr>" and pmap = None and weight = "2 ^ 40" and nx = 2
          and ny = 2 and e = MemoryError]
    by (simp add: sample_alloc_def size_nd_def)
next
  show "\<not> isl (snd (oavol_args sample_alloc oa2d_zero sample_heap \<lparr>buf = 0, shape = [2]\<rparr>
          \<lparr>buf = 1, shape = [2]\<rparr> \<lparr>buf = 5, shape = [1, 2]\<rparr> \<lparr>buf = 8, shape = [1, 3]\<rparr>
          \<lparr>buf = 3, shape = [1]\<rparr> \<lparr>buf = 4, shape = [1]\<rparr> \<lparr>buf = 7, shape = [1, 1]\<rparr>
          (Some \<lparr>nrows = 1, ncols = 1, cells = [Fin 1]\<rparr>) 0 0 0))"
    using facade_raises_only [where al = sample_alloc and h = sample_heap
          and oa2d = oa2d_zero and x = "\<lparr>buf = 0, shape = [2]\<rparr>"
          and y = "\<lparr>buf = 1, shape = [2]\<rparr>" and z = "\<lparr>buf = 5, shape = [1, 2]\<rparr>"
          and v = "\<lparr>buf = 8, shape = [1, 3]\<rparr>" and xx = "\<lparr>buf = 3, shape = [1]\<rparr>"
          and yy = "\<lparr>buf = 4, shape = [1]\<rparr>" and zz = "\<lparr>buf = 7, shape = [1, 1]\<rparr>"
          and p = "\<lparr>nrows = 1, ncols = 1, cells = [Fin 1]\<rparr>"
          and weight = 0 and nx = 0 and ny = 0]
    by (simp add: isl_reshape_lead ravel_def sample_heap_def)
qed

subsection \<open>Normalisation of invalid values and the caller's array\<close>

text \<open>
  Claim C4, as stated, fails: the caller's value array holds a \<open>NaN\<close> before the call
  to \<open>oasurf\<close> and holds the fill value in its place after the call has returned.
\<close>

theorem caller_array_overwritten:
  "sample_heap 2 = [NaN, Fin 5]
   \<and> fst (oasurf sample_alloc oa2d_zero sample_heap \<lparr>buf = 0, shape = [2]\<rparr> \<lparr>buf = 1, shape = [2]\<rparr>
          \<lparr>buf = 2, shape = [2]\<rparr> \<lparr>buf = 3, shape = [1]\<rparr> \<lparr>buf = 4, shape = [1]\<rparr> None 1 2 2) 2
       = [Fin (- 999999), Fin 5]
   \<and> snd (oasurf sample_alloc oa2d_zero sample_heap \<lparr>buf = 0, shape = [2]\<rparr> \<lparr>buf = 1, shape = [2]\<rparr>
          \<lparr>buf = 2, shape = [2]\<rparr> \<lparr>buf = 3, shape = [1]\<rparr> \<lparr>buf = 4, shape = [1]\<rparr> None 1 2 2)
       = Inr (\<lparr>mshape = [1], mdata = [Fin 0], mmask = [False]\<rparr>,
              \<lparr>nrows = 1, ncols = 1, cells = [Fin 0]\<rparr>)"
  by (simp add: fst_oasurf fst_oasurf_args snd_oasurf oasurf_ret_def reshape_def
        fix_invalid_new_def oa2d_zero_def snd_oasurf_args fst_fix_invalid sample_heap_def
        np_zeros_def sample_alloc_def size_nd_def ravel_def fix_value_def fill_value_def Let_def)

text \<open>
  Claim C4, amended. The normalisation works in place: after a call to \<open>oasurf\<close> the
  caller's array \<open>d\<close>, and after a call to \<open>oavol\<close> the caller's array \<open>z\<close>,
  holds the fill value \<open>-999999.0\<close> wherever it held a non-finite value; its finite
  entries and every other array of the store are as they were. This holds whether the
  call returns or raises.
\<close>

theorem normalisation_in_place:
  "fst (oasurf al oa2d h x y d xx yy pmap weight nx ny) = h(buf d := map fix_value (h (buf d)))
   \<and> fst (oavol al oa2d oa3d h x y z v xx yy zz pmap weight nx ny)
       = h(buf z := map fix_value (h (buf z)))"
  by (simp only: fst_oasurf fst_oasurf_args fst_oavol fst_oavol_args fst_fix_invalid)

text \<open>Claim C4, amended, at arrays that hold a \<open>NaN\<close> and an infinity.\<close>

theorem normalisation_in_place_witness:
  "fst (oasurf sample_alloc oa2d_zero sample_heap \<lparr>buf = 0, shape = [2]\<rparr> \<lparr>buf = 1, shape = [2]\<rparr>
          \<lparr>buf = 2, shape = [2]\<rparr> \<lparr>buf = 3, shape = [1]\<rparr> \<lparr>buf = 4, shape = [1]\<rparr> None 1 2 2)
     = sample_heap(2 := [Fin (- 999999), Fin 5])
   \<and> fst (oavol sample_alloc oa2d_zero oa3d_zero sample_heap \<lparr>buf = 0, shape = [2]\<rparr> \<lparr>buf = 1, shape = [2]\<rparr>
          \<lparr>buf = 5, shape = [1, 2]\<rparr> \<lparr>buf = 6, shape = [1, 2]\<rparr>
          \<lparr>buf = 3, shape = [1]\<rparr> \<lparr>buf = 4, shape = [1]\<rparr> \<lparr>buf = 7, shape = [1, 1]\<rparr>
          None 1 2 2)
     = sample_heap(5 := [Fin 1, Fin (- 999999)])"
  using normalisation_in_place [where al = sample_alloc and oa2d = oa2d_zero and oa3d = oa3d_zero and h = sample_heap
          and x = "\<lparr>buf = 0, shape = [2]\<rparr>" and y = "\<lparr>buf = 1, shape = [2]\<rparr>"
          and d = "\<lparr>buf = 2, shape = [2]\<rparr>" and xx = "\<lparr>buf = 3, shape = [1]\<rparr>"
          and yy = "\<lparr>buf = 4, shape = [1]\<rparr>" and pmap = None and weight = 1 and nx = 2
          and ny = 2 and z = "\<lparr>buf = 5, shape = [1, 2]\<rparr>" and v = "\<lparr>buf = 6, shape = [1, 2]\<rparr>"
          and zz = "\<lparr>buf = 7, shape = [1, 1]\<rparr>"]
  by (simp add: sample_heap_def fix_value_def fill_value_def)

subsection \<open>Normalisation in the three-dimensional path\<close>

text \<open>
  Claim C5. The claim: \<open>oavol\<close> normalises both the source depths \<open>z\<close> and the
  source values \<open>v\<close> before the library is called. The code normalises \<open>z\<close>
  only: at depths \<open>[1, inf]\<close> and values \<open>[nan, 7]\<close> the library receives the depths
  \<open>[1, -999999]\<close> and the values \<open>[nan, 7]\<close>.
\<close>

theorem oavol_hands_on_invalid_values:
  "snd (oavol_args sample_alloc oa2d_zero sample_heap \<lparr>buf = 0, shape = [2]\<rparr> \<lparr>buf = 1, shape = [2]\<rparr>
          \<lparr>buf = 5, shape = [1, 2]\<rparr> \<lparr>buf = 6, shape = [1, 2]\<rparr>
          \<lparr>buf = 3, shape = [1]\<rparr> \<lparr>buf = 4, shape = [1]\<rparr> \<lparr>buf = 7, shape = [1, 1]\<rparr>
          (Some \<lparr>nrows = 1, ncols = 1, cells = [Fin 1]\<rparr>) 1 2 2)
     = Inr \<lparr>b_x = [Fin 0, Fin 1], b_y = [Fin 0, Fin 0],
            b_z = \<lparr>nrows = 2, ncols = 1, cells = [Fin 1, Fin (- 999999)]\<rparr>,
            b_v = \<lparr>nrows = 2, ncols = 1, cells = [NaN, Fin 7]\<rparr>,
            b_xx = [Fin 0], b_yy = [Fin 0],
            b_zz = \<lparr>nrows = 1, ncols = 1, cells = [Fin 1]\<rparr>,
            b_nx = 2, b_ny = 2, b_pmap = \<lparr>nrows = 1, ncols = 1, cells = [Fin 1]\<rparr>\<rparr>"
  by (simp add: snd_oavol_args_Some fst_fix_invalid sample_heap_def ravel_def reshape_lead_def
        transpose_m_def fix_value_def fill_value_def Let_def upt_rec)

subsection \<open>Decorrelation scales\<close>

text \<open>
  Claim C6, as stated, fails in its last clause: a call with both scales zero is not
  treated as an error. \<open>oasurf\<close>, called with \<open>nx = ny = 0\<close> and otherwise valid
  arguments, hands the scales \<open>(0, 0)\<close> to the library and returns what the library
  returns.
\<close>

theorem zero_scales_handed_on:
  "snd (oasurf_args sample_alloc sample_heap \<lparr>buf = 0, shape = [2]\<rparr> \<lparr>buf = 1, shape = [2]\<rparr>
          \<lparr>buf = 2, shape = [2]\<rparr> \<lparr>buf = 3, shape = [1]\<rparr> \<lparr>buf = 4, shape = [1]\<rparr> None 1 0 0)
     = Inr \<lparr>a_x = [Fin 0, Fin 1], a_y = [Fin 0, Fin 0], a_d = [Fin (- 999999), Fin 5],
            a_xx = [Fin 0], a_yy = [Fin 0], a_nx = 0, a_ny = 0,
            a_pmap = \<lparr>nrows = 1, ncols = 1, cells = [Fin 0]\<rparr>\<rparr>
   \<and> snd (oasurf sample_alloc oa2d_zero sample_heap \<lparr>buf = 0, shape = [2]\<rparr>
          \<lparr>buf = 1, shape = [2]\<rparr> \<lparr>buf = 2, shape = [2]\<rparr> \<lparr>buf = 3, shape = [1]\<rparr>
          \<lparr>buf = 4, shape = [1]\<rparr> None 1 0 0)
     = Inr (\<lparr>mshape = [1], mdata = [Fin 0], mmask = [False]\<rparr>,
            \<lparr>nrows = 1, ncols = 1, cells = [Fin 0]\<rparr>)"
  by (simp add: snd_oasurf oasurf_ret_def reshape_def fix_invalid_new_def oa2d_zero_def
        snd_oasurf_args fst_fix_invalid sample_heap_def np_zeros_def sample_alloc_def
        size_nd_def ravel_def fix_value_def fill_value_def Let_def)

text \<open>
  Claim C6, amended. The scales that \<open>oasurf\<close> and \<open>oavol\<close> hand to the library are
  the given ones with a zero scale replaced by the other one. For non-negative scales of
  which at least one is not zero, both are then positive. When both are zero, both stay
  zero and are handed on: the entry points raise nothing on that account. Whether a call
  reaches the library does not depend on the scales: \<open>oasurf\<close> with a weight map
  always does, without one it does when the allocation of the map succeeds; \<open>oavol\<close>
  with a weight map does when \<open>z\<close>, \<open>v\<close> and \<open>zz\<close> can be reshaped, and without
  one it never does.
\<close>

theorem scales_handed_on:
  "(\<forall>a. snd (oasurf_args al h x y d xx yy pmap weight nx ny) = Inr a \<longrightarrow>
       a_nx a = (if nx = 0 then ny else nx) \<and> a_ny a = (if ny = 0 then nx else ny)
       \<and> (0 \<le> nx \<and> 0 \<le> ny \<and> (nx \<noteq> 0 \<or> ny \<noteq> 0) \<longrightarrow> 0 < a_nx a \<and> 0 < a_ny a)
       \<and> (nx = 0 \<and> ny = 0 \<longrightarrow> a_nx a = 0 \<and> a_ny a = 0))
   \<and> (\<forall>b. snd (oavol_args al oa2d h x y z v xx yy zz pmap weight nx ny) = Inr b \<longrightarrow>
       b_nx b = (if nx = 0 then ny else nx) \<and> b_ny b = (if ny = 0 then nx else ny)
       \<and> (0 \<le> nx \<and> 0 \<le> ny \<and> (nx \<noteq> 0 \<or> ny \<noteq> 0) \<longrightarrow> 0 < b_nx b \<and> 0 < b_ny b)
       \<and> (nx = 0 \<and> ny = 0 \<longrightarrow> b_nx b = 0 \<and> b_ny b = 0))
   \<and> (\<exists>a. snd (oasurf_args al h x y d xx yy (Some p) weight nx ny) = Inr a)
   \<and> (isl (snd (oasurf_args al h x y d xx yy None weight nx ny))
        \<longleftrightarrow> isl (np_zeros al (size_nd xx) weight))
   \<and> (isl (snd (oavol_args al oa2d h x y z v xx yy zz (Some p) weight nx ny))
        \<longleftrightarrow> isl (reshape_lead (shape z) (ravel h z)) \<or> isl (reshape_lead (shape v) (ravel h v))
            \<or> isl (reshape_lead (shape zz) (ravel h zz)))
   \<and> isl (snd (oavol_args al oa2d h x y z v xx yy zz None weight nx ny))"
proof (intro conjI allI impI)
  fix a
  assume "snd (oasurf_args al h x y d xx yy pmap weight nx ny) = Inr a"
  then have a: "a_nx a = (if nx = 0 then ny else nx)"
      "a_ny a = (if ny = 0 then (if nx = 0 then ny else nx) else ny)"
    by (auto simp add: snd_oasurf_args Let_def split: sum.splits)
  from a show "a_nx a = (if nx = 0 then ny else nx)" by simp
  from a show "a_ny a = (if ny = 0 then nx else ny)" by simp
  { assume "0 \<le> nx \<and> 0 \<le> ny \<and> (nx \<noteq> 0 \<or> ny \<noteq> 0)"
    with a show "0 < a_nx a" by auto }
  { assume "0 \<le> nx \<and> 0 \<le> ny \<and> (nx \<noteq> 0 \<or> ny \<noteq> 0)"
    with a show "0 < a_ny a" by auto }
  { assume "nx = 0 \<and> ny = 0"
    with a show "a_nx a = 0" by simp }
  { assume "nx = 0 \<and> ny = 0"
    with a show "a_ny a = 0" by simp }
next
  fix b
  assume r: "snd (oavol_args al oa2d h x y z v xx yy zz pmap weight nx ny) = Inr b"
  have "pmap \<noteq> None"
  proof
    assume "pmap = None"
    with oavol_args_None [of al oa2d h x y z v xx yy zz weight nx ny] r show False by simp
  qed
  then obtain q where q: "pmap = Some q" by auto
  from r have b: "b_nx b = (if nx = 0 then ny else nx)"
      "b_ny b = (if ny = 0 then (if nx = 0 then ny else nx) else ny)"
    unfolding q by (auto simp add: snd_oavol_args_Some Let_def split: sum.splits)
  from b show "b_nx b = (if nx = 0 then ny else nx)" by simp
  from b show "b_ny b = (if ny = 0 then nx else ny)" by simp
  { assume "0 \<le> nx \<and> 0 \<le> ny \<and> (nx \<noteq> 0 \<or> ny \<noteq> 0)"
    with b show "0 < b_nx b" by auto }
  { assume "0 \<le> nx \<and> 0 \<le> ny \<and> (nx \<noteq> 0 \<or> ny \<noteq> 0)"
    with b show "0 < b_ny b" by auto }
  { assume "nx = 0 \<and> ny = 0"
    with b show "b_nx b = 0" by simp }
  { assume "nx = 0 \<and> ny = 0"
    with b show "b_ny b = 0" by simp }
next
  show "\<exists>a. snd (oasurf_args al h x y d xx yy (Some p) weight nx ny) = Inr a"
    by (simp add: snd_oasurf_args Let_def)
next
  show "isl (snd (oasurf_args al h x y d xx yy None weight nx ny))
        \<longleftrightarrow> isl (np_zeros al (size_nd xx) weight)"
    by (simp add: snd_oasurf_args Let_def split: sum.split)
next
  let ?h1 = "fst (fix_invalid h z)"
  have "isl (snd (oavol_args al oa2d h x y z v xx yy zz (Some p) weight nx ny))
          \<longleftrightarrow> isl (reshape_lead (shape z) (ravel ?h1 z))
              \<or> isl (reshape_lead (shape v) (ravel ?h1 v))
              \<or> isl (reshape_lead (shape zz) (ravel ?h1 zz))"
    by (simp add: snd_oavol_args_Some Let_def split: sum.split)
  then show "isl (snd (oavol_args al oa2d h x y z v xx yy zz (Some p) weight nx ny))
      \<longleftrightarrow> isl (reshape_lead (shape z) (ravel h z)) \<or> isl (reshape_lead (shape v) (ravel h v))
          \<or> isl (reshape_lead (shape zz) (ravel h zz))"
    by (simp only: isl_reshape_lead_fixed)
next
  show "isl (snd (oavol_args al oa2d h x y z v xx yy zz None weight nx ny))"
    by (rule oavol_args_None)
qed

text \<open>
  Claim C6, amended, at \<open>nx = 0\<close> and \<open>ny = 3\<close>, where both entry points hand on
  \<open>(3, 3)\<close>, and at \<open>nx = ny = 0\<close>, where \<open>oasurf\<close> hands on \<open>(0, 0)\<close>.
\<close>

theorem scales_handed_on_witness:
  "(\<exists>a. snd (oasurf_args sample_alloc sample_heap \<lparr>buf = 0, shape = [2]\<rparr> \<lparr>buf = 1, shape = [2]\<rparr>
            \<lparr>buf = 2, shape = [2]\<rparr> \<lparr>buf = 3, shape = [1]\<rparr> \<lparr>buf = 4, shape = [1]\<rparr>
            None 1 0 3) = Inr a \<and> a_nx a = 3 \<and> a_ny a = 3)
   \<and> (\<exists>b. snd (oavol_args sample_alloc oa2d_zero sample_heap \<lparr>buf = 0, shape = [2]\<rparr>
            \<lparr>buf = 1, shape = [2]\<rparr> \<lparr>buf = 5, shape = [1, 2]\<rparr> \<lparr>buf = 6, shape = [1, 2]\<rparr>
            \<lparr>buf = 3, shape = [1]\<rparr> \<lparr>buf = 4, shape = [1]\<rparr> \<lparr>buf = 7, shape = [1, 1]\<rparr>
            (Some \<lparr>nrows = 1, ncols = 1, cells = [Fin 1]\<rparr>) 1 0 3) = Inr b
          \<and> b_nx b = 3 \<and> b_ny b = 3)
   \<and> (\<exists>a. snd (oasurf_args sample_alloc sample_heap \<lparr>buf = 0, shape = [2]\<rparr> \<lparr>buf = 1, shape = [2]\<rparr>
            \<lparr>buf = 2, shape = [2]\<rparr> \<lparr>buf = 3, shape = [1]\<rparr> \<lparr>buf = 4, shape = [1]\<rparr>
            (Some \<lparr>nrows = 1, ncols = 1, cells = [Fin 1]\<rparr>) 1 0 0) = Inr a
          \<and> a_nx a = 0 \<and> a_ny a = 0)"
proof -
  note t1 = scales_handed_on [where al = sample_alloc and h = sample_heap
          and x = "\<lparr>buf = 0, shape = [2]\<rparr>" and y = "\<lparr>buf = 1, shape = [2]\<rparr>"
          and d = "\<lparr>buf = 2, shape = [2]\<rparr>" and xx = "\<lparr>buf = 3, shape = [1]\<rparr>"
          and yy = "\<lparr>buf = 4, shape = [1]\<rparr>" and pmap = None and weight = 1
          and nx = 0 and ny = 3]
  note t2 = scales_handed_on [where al = sample_alloc and h = sample_heap
          and oa2d = oa2d_zero
          and x = "\<lparr>buf = 0, shape = [2]\<rparr>" and y = "\<lparr>buf = 1, shape = [2]\<rparr>"
          and z = "\<lparr>buf = 5, shape = [1, 2]\<rparr>" and v = "\<lparr>buf = 6, shape = [1, 2]\<rparr>"
          and xx = "\<lparr>buf = 3, shape = [1]\<rparr>" and yy = "\<lparr>buf = 4, shape = [1]\<rparr>"
          and zz = "\<lparr>buf = 7, shape = [1, 1]\<rparr>"
          and pmap = "Some \<lparr>nrows = 1, ncols = 1, cells = [Fin 1]\<rparr>"
          and p = "\<lparr>nrows = 1, ncols = 1, cells = [Fin 1]\<rparr>" and weight = 1
          and nx = 0 and ny = 3]
  note t3 = scales_handed_on [where al = sample_alloc and h = sample_heap
          and x = "\<lparr>buf = 0, shape = [2]\<rparr>" and y = "\<lparr>buf = 1, shape = [2]\<rparr>"
          and d = "\<lparr>buf = 2, shape = [2]\<rparr>" and xx = "\<lparr>buf = 3, shape = [1]\<rparr>"
          and yy = "\<lparr>buf = 4, shape = [1]\<rparr>"
          and pmap = "Some \<lparr>nrows = 1, ncols = 1, cells = [Fin 1]\<rparr>"
          and p = "\<lparr>nrows = 1, ncols = 1, cells = [Fin 1]\<rparr>" and weight = 1
          and nx = 0 and ny = 0]
  have "\<not> isl (snd (oasurf_args sample_alloc sample_heap \<lparr>buf = 0, shape = [2]\<rparr>
            \<lparr>buf = 1, shape = [2]\<rparr> \<lparr>buf = 2, shape = [2]\<rparr> \<lparr>buf = 3, shape = [1]\<rparr>
            \<lparr>buf = 4, shape = [1]\<rparr> None 1 0 3))"
    using t1 by (simp add: np_zeros_def sample_alloc_def size_nd_def)
  then obtain a where a: "snd (oasurf_args sample_alloc sample_heap \<lparr>buf = 0, shape = [2]\<rparr>
            \<lparr>buf = 1, shape = [2]\<rparr> \<lparr>buf = 2, shape = [2]\<rparr> \<lparr>buf = 3, shape = [1]\<rparr>
            \<lparr>buf = 4, shape = [1]\<rparr> None 1 0 3) = Inr a"
    by (cases "snd (oasurf_args sample_alloc sample_heap \<lparr>buf = 0, shape = [2]\<rparr>
            \<lparr>buf = 1, shape = [2]\<rparr> \<lparr>buf = 2, shape = [2]\<rparr> \<lparr>buf = 3, shape = [1]\<rparr>
            \<lparr>buf = 4, shape = [1]\<rparr> None 1 0 3)") auto
  have "\<not> isl (snd (oavol_args sample_alloc oa2d_zero sample_heap \<lparr>buf = 0, shape = [2]\<rparr>
            \<lparr>buf = 1, shape = [2]\<rparr> \<lparr>buf = 5, shape = [1, 2]\<rparr> \<lparr>buf = 6, shape = [1, 2]\<rparr>
            \<lparr>buf = 3, shape = [1]\<rparr> \<lparr>buf = 4, shape = [1]\<rparr> \<lparr>buf = 7, shape = [1, 1]\<rparr>
            (Some \<lparr>nrows = 1, ncols = 1, cells = [Fin 1]\<rparr>) 1 0 3))"
    using t2 by (simp add: isl_reshape_lead ravel_def sample_heap_def)
  then obtain b where b: "snd (oavol_args sample_alloc oa2d_zero sample_heap
            \<lparr>buf = 0, shape = [2]\<rparr> \<lparr>buf = 1, shape = [2]\<rparr> \<lparr>buf = 5, shape = [1, 2]\<rparr>
            \<lparr>buf = 6, shape = [1, 2]\<rparr> \<lparr>buf = 3, shape = [1]\<rparr> \<lparr>buf = 4, shape = [1]\<rparr>
            \<lparr>buf = 7, shape = [1, 1]\<rparr>
            (Some \<lparr>nrows = 1, ncols = 1, cells = [Fin 1]\<rparr>) 1 0 3) = Inr b"
    by (cases "snd (oavol_args sample_alloc oa2d_zero sample_heap
            \<lparr>buf = 0, shape = [2]\<rparr> \<lparr>buf = 1, shape = [2]\<rparr> \<lparr>buf = 5, shape = [1, 2]\<rparr>
            \<lparr>buf = 6, shape = [1, 2]\<rparr> \<lparr>buf = 3, shape = [1]\<rparr> \<lparr>buf = 4, shape = [1]\<rparr>
            \<lparr>buf = 7, shape = [1, 1]\<rparr>
            (Some \<lparr>nrows = 1, ncols = 1, cells = [Fin 1]\<rparr>) 1 0 3)") auto
  from t3 obtain c where c: "snd (oasurf_args sample_alloc sample_heap \<lparr>buf = 0, shape = [2]\<rparr>
            \<lparr>buf = 1, shape = [2]\<rparr> \<lparr>buf = 2, shape = [2]\<rparr> \<lparr>buf = 3, shape = [1]\<rparr>
            \<lparr>buf = 4, shape = [1]\<rparr>
            (Some \<lparr>nrows = 1, ncols = 1, cells = [Fin 1]\<rparr>) 1 0 0) = Inr c"
    by blast
  from t1 a have "a_nx a = 3 \<and> a_ny a = 3" by simp
  moreover from t2 b have "b_nx b = 3 \<and> b_ny b = 3" by simp
  moreover from t3 c have "a_nx c = 0 \<and> a_ny c = 0" by simp
  ultimately show ?thesis using a b c by blast
qed

subsection \<open>Shape of the estimate\<close>

lemma oasurf_ret_shape:
  "oasurf_ret xx vv p = Inr (est, q) \<Longrightarrow>
     mshape est = shape xx \<and> length (mdata est) = size_nd xx \<and> length (mmask est) = size_nd xx"
  by (auto simp add: oasurf_ret_def reshape_def fix_invalid_new_def size_nd_def
        split: if_splits)

lemma oavol_ret_shape:
  "oavol_ret zz vv p = Inr (est, q) \<Longrightarrow>
     mshape est = shape zz \<and> length (mdata est) = size_nd zz \<and> length (mmask est) = size_nd zz"
  by (auto simp add: oavol_ret_def reshape_def fix_invalid_new_def size_nd_def
        split: if_splits)

lemma length_concat_const:
  "(\<And>x. x \<in> set xs \<Longrightarrow> length (f x) = k) \<Longrightarrow> length (concat (map f xs)) = length xs * k"
  by (induction xs) simp_all

lemma length_cells_transpose_m: "length (cells (transpose_m m)) = ncols m * nrows m"
  by (simp add: transpose_m_def length_concat_const)

text \<open>
  Claim C7. Whenever \<open>oasurf\<close> returns, the estimate has the shape of \<open>xx\<close>, and
  whenever \<open>oavol\<close> returns, the estimate has the shape of \<open>zz\<close>; data and mask
  have as many entries as the shape says. And they do return: when the library returns
  an estimate with as many entries as the destination array, the entry point returns an
  estimate together with the library's weight map.
\<close>

theorem shape_fidelity:
  "(\<forall>est p. snd (oasurf al oa2d h x y d xx yy pmap weight nx ny) = Inr (est, p) \<longrightarrow>
       mshape est = shape xx \<and> length (mdata est) = size_nd xx
       \<and> length (mmask est) = size_nd xx)
   \<and> (\<forall>est p. snd (oavol al oa2d oa3d h x y z v xx yy zz pmap weight nx ny) = Inr (est, p) \<longrightarrow>
       mshape est = shape zz \<and> length (mdata est) = size_nd zz
       \<and> length (mmask est) = size_nd zz)
   \<and> (\<forall>a vv err p. snd (oasurf_args al h x y d xx yy pmap weight nx ny) = Inr a
         \<and> oa2d a = Inr (vv, err, p) \<and> length vv = size_nd xx \<longrightarrow>
       (\<exists>est. snd (oasurf al oa2d h x y d xx yy pmap weight nx ny) = Inr (est, p)))
   \<and> (\<forall>b vv err p. snd (oavol_args al oa2d h x y z v xx yy zz pmap weight nx ny) = Inr b
         \<and> oa3d b = Inr (vv, err, p) \<and> nrows vv * ncols vv = size_nd zz \<longrightarrow>
       (\<exists>est. snd (oavol al oa2d oa3d h x y z v xx yy zz pmap weight nx ny) = Inr (est, p)))"
proof (intro conjI allI impI)
  fix est p
  assume "snd (oasurf al oa2d h x y d xx yy pmap weight nx ny) = Inr (est, p)"
  then obtain vv q where "oasurf_ret xx vv q = Inr (est, p)"
    by (auto simp add: snd_oasurf split: sum.splits)
  then have s: "mshape est = shape xx \<and> length (mdata est) = size_nd xx
      \<and> length (mmask est) = size_nd xx"
    by (rule oasurf_ret_shape)
  from s show "mshape est = shape xx" by simp
  from s show "length (mdata est) = size_nd xx" by simp
  from s show "length (mmask est) = size_nd xx" by simp
next
  fix est p
  assume "snd (oavol al oa2d oa3d h x y z v xx yy zz pmap weight nx ny) = Inr (est, p)"
  then obtain vv q where "oavol_ret zz vv q = Inr (est, p)"
    by (auto simp add: snd_oavol split: sum.splits)
  then have s: "mshape est = shape zz \<and> length (mdata est) = size_nd zz
      \<and> length (mmask est) = size_nd zz"
    by (rule oavol_ret_shape)
  from s show "mshape est = shape zz" by simp
  from s show "length (mdata est) = size_nd zz" by simp
  from s show "length (mmask est) = size_nd zz" by simp
next
  fix a vv err p
  assume "snd (oasurf_args al h x y d xx yy pmap weight nx ny) = Inr a
         \<and> oa2d a = Inr (vv, err, p) \<and> length vv = size_nd xx"
  then show "\<exists>est. snd (oasurf al oa2d h x y d xx yy pmap weight nx ny) = Inr (est, p)"
    by (simp add: snd_oasurf oasurf_ret_def reshape_def size_nd_def)
next
  fix b vv err p
  assume "snd (oavol_args al oa2d h x y z v xx yy zz pmap weight nx ny) = Inr b
         \<and> oa3d b = Inr (vv, err, p) \<and> nrows vv * ncols vv = size_nd zz"
  then show "\<exists>est. snd (oavol al oa2d oa3d h x y z v xx yy zz pmap weight nx ny) = Inr (est, p)"
    by (simp add: snd_oavol oavol_ret_def reshape_def size_nd_def length_cells_transpose_m
          mult.commute)
qed

text \<open>
  Claim C7, at a destination of shape \<open>(1, 1, 1)\<close> for \<open>oasurf\<close> and destination
  depths of shape \<open>(1, 1)\<close> for \<open>oavol\<close>.
\<close>

theorem shape_fidelity_witness:
  "(\<exists>est p. snd (oasurf sample_alloc oa2d_zero sample_heap \<lparr>buf = 0, shape = [2]\<rparr> \<lparr>buf = 1, shape = [2]\<rparr>
            \<lparr>buf = 2, shape = [2]\<rparr> \<lparr>buf = 3, shape = [1, 1, 1]\<rparr> \<lparr>buf = 4, shape = [1, 1, 1]\<rparr>
            None 1 2 2) = Inr (est, p) \<and> mshape est = [1, 1, 1])
   \<and> (\<exists>est p. snd (oavol sample_alloc oa2d_zero oa3d_zero sample_heap \<lparr>buf = 0, shape = [2]\<rparr>
            \<lparr>buf = 1, shape = [2]\<rparr> \<lparr>buf = 5, shape = [1, 2]\<rparr> \<lparr>buf = 6, shape = [1, 2]\<rparr>
            \<lparr>buf = 3, shape = [1]\<rparr> \<lparr>buf = 4, shape = [1]\<rparr> \<lparr>buf = 7, shape = [1, 1]\<rparr>
            (Some \<lparr>nrows = 1, ncols = 1, cells = [Fin 1]\<rparr>) 1 2 2) = Inr (est, p)
          \<and> mshape est = [1, 1])"
proof -
  obtain e1 p1 where r1: "snd (oasurf sample_alloc oa2d_zero sample_heap \<lparr>buf = 0, shape = [2]\<rparr>
            \<lparr>buf = 1, shape = [2]\<rparr> \<lparr>buf = 2, shape = [2]\<rparr> \<lparr>buf = 3, shape = [1, 1, 1]\<rparr>
            \<lparr>buf = 4, shape = [1, 1, 1]\<rparr> None 1 2 2) = Inr (e1, p1)"
    by (simp add: snd_oasurf snd_oasurf_args oasurf_ret_def reshape_def oa2d_zero_def
          np_zeros_def sample_alloc_def fst_fix_invalid sample_heap_def ravel_def size_nd_def Let_def)
  obtain e2 p2 where r2: "snd (oavol sample_alloc oa2d_zero oa3d_zero sample_heap \<lparr>buf = 0, shape = [2]\<rparr>
            \<lparr>buf = 1, shape = [2]\<rparr> \<lparr>buf = 5, shape = [1, 2]\<rparr> \<lparr>buf = 6, shape = [1, 2]\<rparr>
            \<lparr>buf = 3, shape = [1]\<rparr> \<lparr>buf = 4, shape = [1]\<rparr> \<lparr>buf = 7, shape = [1, 1]\<rparr>
            (Some \<lparr>nrows = 1, ncols = 1, cells = [Fin 1]\<rparr>) 1 2 2) = Inr (e2, p2)"
    by (simp add: snd_oavol snd_oavol_args_Some oavol_ret_def reshape_def oa3d_zero_def
          fst_fix_invalid sample_heap_def ravel_def reshape_lead_def transpose_m_def
          Let_def upt_rec)
  from shape_fidelity [where al = sample_alloc and oa2d = oa2d_zero and oa3d = oa3d_zero and h = sample_heap
          and x = "\<lparr>buf = 0, shape = [2]\<rparr>" and y = "\<lparr>buf = 1, shape = [2]\<rparr>"
          and d = "\<lparr>buf = 2, shape = [2]\<rparr>" and xx = "\<lparr>buf = 3, shape = [1, 1, 1]\<rparr>"
          and yy = "\<lparr>buf = 4, shape = [1, 1, 1]\<rparr>" and pmap = None and weight = 1
          and nx = 2 and ny = 2]
       r1
  have s1: "mshape e1 = [1, 1, 1]" by simp
  from shape_fidelity [where al = sample_alloc and oa2d = oa2d_zero and oa3d = oa3d_zero and h = sample_heap
          and x = "\<lparr>buf = 0, shape = [2]\<rparr>" and y = "\<lparr>buf = 1, shape = [2]\<rparr>"
          and z = "\<lparr>buf = 5, shape = [1, 2]\<rparr>" and v = "\<lparr>buf = 6, shape = [1, 2]\<rparr>"
          and xx = "\<lparr>buf = 3, shape = [1]\<rparr>" and yy = "\<lparr>buf = 4, shape = [1]\<rparr>"
          and zz = "\<lparr>buf = 7, shape = [1, 1]\<rparr>"
          and pmap = "Some \<lparr>nrows = 1, ncols = 1, cells = [Fin 1]\<rparr>" and weight = 1
          and nx = 2 and ny = 2]
       r2
  have s2: "mshape e2 = [1, 1]" by simp
  from r1 r2 s1 s2 show ?thesis by blast
qed

subsection \<open>Determinism of the weight map\<close>

text \<open>The weight map of the specification's routine does not depend on the values.\<close>

lemma oa2d_spec_blind:
  "oa2d_spec est (a\<lparr>a_d := v\<rparr>) = Inr r \<Longrightarrow> oa2d_spec est (a\<lparr>a_d := v'\<rparr>) = Inr r' \<Longrightarrow>
     snd (snd r) = snd (snd r')"
  by (auto simp add: oa2d_spec_def Let_def split: if_splits prod.splits)

text \<open>
  Claim C8, as stated, fails. The array of x coordinates holds a \<open>NaN\<close>. A first call
  with a separate value array returns the weight map \<open>[2, 0]\<close> and leaves the
  coordinates as they are. A second call with the same points, neighbour count and
  scales, but with the array of x coordinates passed as the values too, returns the
  weight map \<open>[2, 1]\<close>: the normalisation of the values has overwritten the
  \<open>NaN\<close> coordinate in place. The library is the routine of the specification.
\<close>

theorem aliased_values_change_weight_map:
  "ravel sample_heap \<lparr>buf = 9, shape = [2]\<rparr> = [NaN, Fin 1]
   \<and> snd (oasurf sample_alloc (oa2d_spec estimate_zero) sample_heap \<lparr>buf = 9, shape = [2]\<rparr>
          \<lparr>buf = 1, shape = [2]\<rparr> \<lparr>buf = 2, shape = [2]\<rparr> \<lparr>buf = 3, shape = [1]\<rparr>
          \<lparr>buf = 4, shape = [1]\<rparr> None 2 2 2)
       = Inr (\<lparr>mshape = [1], mdata = [Fin 0], mmask = [False]\<rparr>,
              \<lparr>nrows = 1, ncols = 2, cells = [Fin 2, Fin 0]\<rparr>)
   \<and> ravel (fst (oasurf sample_alloc (oa2d_spec estimate_zero) sample_heap
          \<lparr>buf = 9, shape = [2]\<rparr> \<lparr>buf = 1, shape = [2]\<rparr> \<lparr>buf = 2, shape = [2]\<rparr>
          \<lparr>buf = 3, shape = [1]\<rparr> \<lparr>buf = 4, shape = [1]\<rparr> None 2 2 2)) \<lparr>buf = 9, shape = [2]\<rparr>
       = [NaN, Fin 1]
   \<and> snd (oasurf sample_alloc (oa2d_spec estimate_zero)
          (fst (oasurf sample_alloc (oa2d_spec estimate_zero) sample_heap
             \<lparr>buf = 9, shape = [2]\<rparr> \<lparr>buf = 1, shape = [2]\<rparr> \<lparr>buf = 2, shape = [2]\<rparr>
             \<lparr>buf = 3, shape = [1]\<rparr> \<lparr>buf = 4, shape = [1]\<rparr> None 2 2 2))
          \<lparr>buf = 9, shape = [2]\<rparr> \<lparr>buf = 1, shape = [2]\<rparr> \<lparr>buf = 9, shape = [2]\<rparr>
          \<lparr>buf = 3, shape = [1]\<rparr> \<lparr>buf = 4, shape = [1]\<rparr> None 2 2 2)
       = Inr (\<lparr>mshape = [1], mdata = [Fin 0], mmask = [False]\<rparr>,
              \<lparr>nrows = 1, ncols = 2, cells = [Fin 2, Fin 1]\<rparr>)"
  by (simp add: fst_oasurf fst_oasurf_args snd_oasurf snd_oasurf_args fst_fix_invalid
        oa2d_spec_def oasurf_ret_def sample_heap_def ravel_def zeros_one_by_two
        size_nd_def estimate_zero_def reshape_def fix_invalid_new_def build_weight_map_def
        weight_row_def nearest_def candidates_def sq_dist_def fix_value_def fill_value_def
        enumerate_eq_zip upt_rec Let_def replicate_two)

text \<open>
  Claim C8, amended. Take two calls to \<open>oasurf\<close> without a weight map, with the same
  source points, destination points, neighbour count and scales, in which the value
  array is not the very array of a coordinate that holds a non-finite value. Then
  \<open>oasurf\<close> hands the library the same arguments in both calls, the values apart. So
  for every library routine whose weight map does not depend on the values it is handed,
  the two calls return the same weight map, whatever the value arrays, the store (so
  whatever the order of the calls) and the estimates are.
\<close>

theorem weight_map_for_same_geometry:
  assumes "list_all (untouched h d) [x, y, xx, yy]"
      and "list_all (untouched h' d') [x', y', xx', yy']"
      and "ravel h' x' = ravel h x" and "ravel h' y' = ravel h y"
      and "ravel h' xx' = ravel h xx" and "ravel h' yy' = ravel h yy"
      and "size_nd xx' = size_nd xx"
  shows "(\<forall>a a'. snd (oasurf_args al h x y d xx yy None K nx ny) = Inr a
            \<and> snd (oasurf_args al h' x' y' d' xx' yy' None K nx ny) = Inr a'
          \<longrightarrow> a' = a\<lparr>a_d := a_d a'\<rparr>)
       \<and> ((\<forall>a v v' r r'. oa2d (a\<lparr>a_d := v\<rparr>) = Inr r \<and> oa2d (a\<lparr>a_d := v'\<rparr>) = Inr r'
              \<longrightarrow> snd (snd r) = snd (snd r'))
          \<longrightarrow> (\<forall>e p e' p'. snd (oasurf al oa2d h x y d xx yy None K nx ny) = Inr (e, p)
                \<and> snd (oasurf al oa2d h' x' y' d' xx' yy' None K nx ny) = Inr (e', p')
              \<longrightarrow> p = p'))"
proof -
  let ?h1 = "fst (fix_invalid h d)" and ?h1' = "fst (fix_invalid h' d')"
  have r: "ravel ?h1 x = ravel h x" "ravel ?h1 y = ravel h y"
      "ravel ?h1 xx = ravel h xx" "ravel ?h1 yy = ravel h yy"
    using assms(1) by (simp_all add: ravel_untouched)
  have r': "ravel ?h1' x' = ravel h x" "ravel ?h1' y' = ravel h y"
      "ravel ?h1' xx' = ravel h xx" "ravel ?h1' yy' = ravel h yy"
    using assms(2-6) by (simp_all add: ravel_untouched)
  have same: "a' = a\<lparr>a_d := a_d a'\<rparr>"
    if "snd (oasurf_args al h x y d xx yy None K nx ny) = Inr a"
      and "snd (oasurf_args al h' x' y' d' xx' yy' None K nx ny) = Inr a'" for a a'
    using that assms(7)
    by (auto simp add: snd_oasurf_args r r' Let_def split: sum.splits)
  have maps: "p = p'"
    if blind: "\<forall>a v v' r r'. oa2d (a\<lparr>a_d := v\<rparr>) = Inr r \<and> oa2d (a\<lparr>a_d := v'\<rparr>) = Inr r'
              \<longrightarrow> snd (snd r) = snd (snd r')"
      and c: "snd (oasurf al oa2d h x y d xx yy None K nx ny) = Inr (e, p)"
      and c': "snd (oasurf al oa2d h' x' y' d' xx' yy' None K nx ny) = Inr (e', p')"
    for e p e' p'
  proof -
    from c obtain a vv err where a: "snd (oasurf_args al h x y d xx yy None K nx ny) = Inr a"
        and l: "oa2d a = Inr (vv, err, p)"
      by (auto simp add: snd_oasurf oasurf_ret_def split: sum.splits prod.splits)
    from c' obtain a' vv' err' where
        a': "snd (oasurf_args al h' x' y' d' xx' yy' None K nx ny) = Inr a'"
        and l': "oa2d a' = Inr (vv', err', p')"
      by (auto simp add: snd_oasurf oasurf_ret_def split: sum.splits prod.splits)
    from same [OF a a'] have eq: "a' = a\<lparr>a_d := a_d a'\<rparr>" .
    have "oa2d (a\<lparr>a_d := a_d a\<rparr>) = Inr (vv, err, p)"
      using l by simp
    moreover have "oa2d (a\<lparr>a_d := a_d a'\<rparr>) = Inr (vv', err', p')"
      using l' eq by simp
    ultimately have "snd (snd (vv, err, p)) = snd (snd (vv', err', p'))"
      using blind by blast
    then show ?thesis by simp
  qed
  from same maps show ?thesis by blast
qed

text \<open>
  Claim C8, amended, at two source points and one destination point with the routine of
  the specification: once with a value array that holds a \<open>NaN\<close>, once with the
  (finite) array of x coordinates passed as the values.
\<close>

theorem weight_map_for_same_geometry_witness:
  "snd (oasurf sample_alloc (oa2d_spec estimate_zero) sample_heap \<lparr>buf = 0, shape = [2]\<rparr>
          \<lparr>buf = 1, shape = [2]\<rparr> \<lparr>buf = 2, shape = [2]\<rparr> \<lparr>buf = 3, shape = [1]\<rparr>
          \<lparr>buf = 4, shape = [1]\<rparr> None 2 2 0)
     = Inr (\<lparr>mshape = [1], mdata = [Fin 0], mmask = [False]\<rparr>,
            \<lparr>nrows = 1, ncols = 2, cells = [Fin 1, Fin 2]\<rparr>)
   \<and> (\<exists>e'. snd (oasurf sample_alloc (oa2d_spec estimate_zero) sample_heap
          \<lparr>buf = 0, shape = [2]\<rparr> \<lparr>buf = 1, shape = [2]\<rparr> \<lparr>buf = 0, shape = [2]\<rparr>
          \<lparr>buf = 3, shape = [1]\<rparr> \<lparr>buf = 4, shape = [1]\<rparr> None 2 2 0)
     = Inr (e', \<lparr>nrows = 1, ncols = 2, cells = [Fin 1, Fin 2]\<rparr>))"
proof -
  have u1: "list_all (untouched sample_heap \<lparr>buf = 2, shape = [2]\<rparr>)
              [\<lparr>buf = 0, shape = [2]\<rparr>, \<lparr>buf = 1, shape = [2]\<rparr>, \<lparr>buf = 3, shape = [1]\<rparr>,
               \<lparr>buf = 4, shape = [1]\<rparr>]"
    by (simp add: untouched_def)
  have u2: "list_all (untouched sample_heap \<lparr>buf = 0, shape = [2]\<rparr>)
              [\<lparr>buf = 0, shape = [2]\<rparr>, \<lparr>buf = 1, shape = [2]\<rparr>, \<lparr>buf = 3, shape = [1]\<rparr>,
               \<lparr>buf = 4, shape = [1]\<rparr>]"
    by (simp add: untouched_def sample_heap_def)
  have blind: "\<forall>a v v' r r'. oa2d_spec estimate_zero (a\<lparr>a_d := v\<rparr>) = Inr r
                 \<and> oa2d_spec estimate_zero (a\<lparr>a_d := v'\<rparr>) = Inr r'
               \<longrightarrow> snd (snd r) = snd (snd r')"
    using oa2d_spec_blind by blast
  have c1: "snd (oasurf sample_alloc (oa2d_spec estimate_zero) sample_heap
          \<lparr>buf = 0, shape = [2]\<rparr> \<lparr>buf = 1, shape = [2]\<rparr> \<lparr>buf = 2, shape = [2]\<rparr>
          \<lparr>buf = 3, shape = [1]\<rparr> \<lparr>buf = 4, shape = [1]\<rparr> None 2 2 0)
     = Inr (\<lparr>mshape = [1], mdata = [Fin 0], mmask = [False]\<rparr>,
            \<lparr>nrows = 1, ncols = 2, cells = [Fin 1, Fin 2]\<rparr>)"
    by (simp add: snd_oasurf snd_oasurf_args fst_fix_invalid oa2d_spec_def oasurf_ret_def
          sample_heap_def ravel_def zeros_one_by_two size_nd_def
          estimate_zero_def reshape_def fix_invalid_new_def build_weight_map_def weight_row_def
          nearest_def candidates_def sq_dist_def fix_value_def fill_value_def enumerate_eq_zip
          upt_rec Let_def replicate_two)
  obtain e' p' where c2: "snd (oasurf sample_alloc (oa2d_spec estimate_zero) sample_heap
          \<lparr>buf = 0, shape = [2]\<rparr> \<lparr>buf = 1, shape = [2]\<rparr> \<lparr>buf = 0, shape = [2]\<rparr>
          \<lparr>buf = 3, shape = [1]\<rparr> \<lparr>buf = 4, shape = [1]\<rparr> None 2 2 0) = Inr (e', p')"
    by (simp add: snd_oasurf snd_oasurf_args fst_fix_invalid oa2d_spec_def oasurf_ret_def
          sample_heap_def ravel_def zeros_one_by_two size_nd_def
          estimate_zero_def reshape_def build_weight_map_def fix_value_def Let_def
          replicate_two)
  from weight_map_for_same_geometry [OF u1 u2 refl refl refl refl refl,
        where al = sample_alloc and K = 2 and nx = 2 and ny = 0
          and oa2d = "oa2d_spec estimate_zero"]
       blind c1 c2
  have "\<lparr>nrows = 1, ncols = 2, cells = [Fin 1, Fin 2]\<rparr> = p'"
    by blast
  with c1 c2 show ?thesis by simp
qed

subsection \<open>The neighbour count when a weight map is supplied\<close>

text \<open>
  Claim C9. When a weight map is supplied, the neighbour count has no effect: for any two
  values of \<open>weight\<close>, \<open>oasurf\<close> gives the same store and the same outcome (the
  same estimate and weight map, or the same exception), and so does \<open>oavol\<close>.
\<close>

theorem weight_inert_with_pmap:
  "oasurf al oa2d h x y d xx yy (Some p) w1 nx ny = oasurf al oa2d h x y d xx yy (Some p) w2 nx ny
   \<and> oavol al oa2d oa3d h x y z v xx yy zz (Some p) w1 nx ny
       = oavol al oa2d oa3d h x y z v xx yy zz (Some p) w2 nx ny"
  by (simp add: oasurf_def oasurf_args_def oavol_def oavol_args_def oavol_pmap_def)

section \<open>Properties of roms/obsgen.py\<close>

subsection \<open>Construction of the reader classes\<close>

lemma super_init_raises:
  "''grid'' \<in> set (map fst locals) \<Longrightarrow> ''dt'' \<in> set (map fst locals) \<Longrightarrow>
   ''epoch'' \<notin> set (map fst locals) \<Longrightarrow>
     super_init ext self locals = Inl (NameError ''epoch'')"
  by (simp add: super_init_def lookup_var_def lookup_name_def obsgen_globals_def
        py_builtins_def)

text \<open>
  Claim C2, as stated, fails for \<open>aviso_sla_map\<close>: the constructor calls
  \<open>seapy.convolve_mask\<close> on a given \<open>ssh_mean\<close> before it reaches the call to the
  base constructor, and an exception of that call is what the caller gets.
\<close>

theorem construct_other_exception:
  "new_reader seapy_strict (PObj 7) (PNum 1) (PObj 8) (Aviso_sla_map (PObj 9) (PNum 0.05))
     = Inl TypeError"
  by (simp add: aviso_sla_map_init_def seapy_strict_def)

text \<open>
  Claim C2, amended. Constructing any of the six reader classes never gives an object.
  The constructor raises \<open>NameError\<close> for the name \<open>epoch\<close> when it evaluates the
  arguments of \<open>super().__init__(grid, dt, epoch)\<close>; the one other outcome is that
  \<open>aviso_sla_map\<close>, given an \<open>ssh_mean\<close> other than \<open>None\<close>, raises the exception
  that \<open>seapy.convolve_mask\<close> raised on it.
\<close>

theorem construct_outcome:
  "new_reader ext grid dt reftime r = Inl (NameError ''epoch'')
   \<or> (\<exists>m s e. r = Aviso_sla_map m s \<and> m \<noteq> PNone \<and> convolve_mask ext m = Inl e
         \<and> new_reader ext grid dt reftime r = Inl e)"
proof (cases r)
  case (Aquarius_sss a b)
  then show ?thesis
    by (simp add: aquarius_sss_init_def super_init_raises Let_def)
next
  case (Argo_ctd a b c d)
  then show ?thesis
    by (simp add: argo_ctd_init_def super_init_raises Let_def)
next
  case (Aviso_sla_map m s)
  then show ?thesis
    by (cases "convolve_mask ext m")
       (simp_all add: aviso_sla_map_init_def super_init_raises Let_def)
next
  case (Ostia_sst_map a b)
  then show ?thesis
    by (simp add: ostia_sst_map_init_def super_init_raises Let_def)
next
  case (Seaglider_profile a b c d e)
  then show ?thesis
    by (simp add: seaglider_profile_init_def super_init_raises Let_def)
next
  case (Tao_mooring a b c d e f g h i)
  then show ?thesis
    by (simp add: tao_mooring_init_def super_init_raises Let_def)
qed

text \<open>
  Claim C2, amended, at \<open>aquarius_sss\<close> and at \<open>aviso_sla_map\<close> without
  \<open>ssh_mean\<close>, both with default arguments.
\<close>

theorem construct_outcome_witness:
  "new_reader seapy_strict (PObj 7) (PNum 1) (PObj 8) (Aquarius_sss PNone (PNum 0.1))
     = Inl (NameError ''epoch'')
   \<and> new_reader seapy_strict (PObj 7) (PNum 1) (PObj 8) (Aviso_sla_map PNone (PNum 0.05))
     = Inl (NameError ''epoch'')"
  using construct_outcome [of seapy_strict "PObj 7" "PNum 1" "PObj 8" "Aquarius_sss PNone (PNum 0.1)"]
        construct_outcome [of seapy_strict "PObj 7" "PNum 1" "PObj 8" "Aviso_sla_map PNone (PNum 0.05)"]
  by simp

subsection \<open>Batch conversion\<close>

lemma printed_batch_step:
  "printed (batch_step cf tn out w n f) = printed w @ [f]"
  by (simp add: batch_step_def Let_def split: sum.split option.split)

lemma warned_batch_step:
  "warned (batch_step cf tn out w n f) =
     warned w @ (if (case cf f of
                       Inl e \<Rightarrow> True
                     | Inr None \<Rightarrow> False
                     | Inr (Some ob) \<Rightarrow>
                         (case out_name out n ob of
                            Inl e \<Rightarrow> True
                          | Inr name \<Rightarrow> isl (tn ob name)))
                 then [''WARNING: '' @ f @ '' cannot be processed.''] else [])"
  by (simp add: batch_step_def convert_and_write_def Let_def split: sum.split option.split)

lemma written_batch_step:
  "written (batch_step cf tn out w n f) =
     written w @ (case cf f of
                    Inl e \<Rightarrow> []
                  | Inr None \<Rightarrow> []
                  | Inr (Some ob) \<Rightarrow>
                      (case out_name out n ob of
                         Inl e \<Rightarrow> []
                       | Inr name \<Rightarrow> (if isl (tn ob name) then [] else [(name, ob)])))"
  by (simp add: batch_step_def convert_and_write_def Let_def split: sum.split option.split)

lemma batch_loop_effects:
  "printed (batch_loop cf tn out w n files) = printed w @ files
   \<and> warned (batch_loop cf tn out w n files) =
       warned w @ map (\<lambda>(k, f). ''WARNING: '' @ f @ '' cannot be processed.'')
                    (filter (\<lambda>(k, f). case cf f of
                                         Inl e \<Rightarrow> True
                                       | Inr None \<Rightarrow> False
                                       | Inr (Some ob) \<Rightarrow>
                                           (case out_name out k ob of
                                              Inl e \<Rightarrow> True
                                            | Inr name \<Rightarrow> isl (tn ob name)))
                       (enumerate n files))
   \<and> written (batch_loop cf tn out w n files) =
       written w @ concat (map (\<lambda>(k, f). case cf f of
                                        Inl e \<Rightarrow> []
                                      | Inr None \<Rightarrow> []
                                      | Inr (Some ob) \<Rightarrow>
                                          (case out_name out k ob of
                                             Inl e \<Rightarrow> []
                                           | Inr name \<Rightarrow>
                                               (if isl (tn ob name) then [] else [(name, ob)])))
                             (enumerate n files))"
proof (induction files arbitrary: w n)
  case Nil
  then show ?case by simp
next
  case (Cons f fs)
  show ?case
    by (simp add: Cons.IH printed_batch_step warned_batch_step written_batch_step)
qed

text \<open>
  Claim C10. \<open>batch_files\<close> always runs to the end of the list, for every behaviour of
  \<open>convert_file\<close> and \<open>to_netcdf\<close>: every input file is printed, in order, and no
  exception of a file reaches the caller. A file gets a warning, which names it, exactly
  when \<open>convert_file\<close> raised on it, or the name of its output could not be made, or
  \<open>to_netcdf\<close> raised on its result; a file is written exactly when \<open>convert_file\<close>
  gave a result and \<open>to_netcdf\<close> returned. In particular every file on which
  \<open>convert_file\<close> raises, and every file on whose result \<open>to_netcdf\<close> raises, is
  warned about.
\<close>

theorem batch_files_skips_and_warns:
  "printed (batch_files cf tn w in_files out) = printed w @ in_files
   \<and> warned (batch_files cf tn w in_files out) =
       warned w @ map (\<lambda>(k, f). ''WARNING: '' @ f @ '' cannot be processed.'')
                    (filter (\<lambda>(k, f). case cf f of
                                         Inl e \<Rightarrow> True
                                       | Inr None \<Rightarrow> False
                                       | Inr (Some ob) \<Rightarrow>
                                           (case out_name out k ob of
                                              Inl e \<Rightarrow> True
                                            | Inr name \<Rightarrow> isl (tn ob name)))
                       (enumerate 0 in_files))
   \<and> written (batch_files cf tn w in_files out) =
       written w @ concat (map (\<lambda>(k, f). case cf f of
                                        Inl e \<Rightarrow> []
                                      | Inr None \<Rightarrow> []
                                      | Inr (Some ob) \<Rightarrow>
                                          (case out_name out k ob of
                                             Inl e \<Rightarrow> []
                                           | Inr name \<Rightarrow>
                                               (if isl (tn ob name) then [] else [(name, ob)])))
                             (enumerate 0 in_files))
   \<and> (\<forall>k f. (k, f) \<in> set (enumerate 0 in_files) \<and> isl (cf f) \<longrightarrow>
          ''WARNING: '' @ f @ '' cannot be processed.''
            \<in> set (warned (batch_files cf tn w in_files out)))
   \<and> (\<forall>k f ob name. (k, f) \<in> set (enumerate 0 in_files) \<and> cf f = Inr (Some ob)
          \<and> out_name out k ob = Inr name \<and> isl (tn ob name) \<longrightarrow>
          ''WARNING: '' @ f @ '' cannot be processed.''
            \<in> set (warned (batch_files cf tn w in_files out)))"
proof -
  note eff = batch_loop_effects [of cf tn out w 0 in_files, folded batch_files_def]
  have w1: "''WARNING: '' @ f @ '' cannot be processed.''
            \<in> set (warned (batch_files cf tn w in_files out))"
    if "(k, f) \<in> set (enumerate 0 in_files)" and "isl (cf f)" for k f
  proof -
    from that(2) have "(case cf f of
                          Inl e \<Rightarrow> True
                        | Inr None \<Rightarrow> False
                        | Inr (Some ob) \<Rightarrow>
                            (case out_name out k ob of
                               Inl e \<Rightarrow> True
                             | Inr name \<Rightarrow> isl (tn ob name)))"
      by (cases "cf f") simp_all
    with that(1) show ?thesis
      unfolding eff [THEN conjunct2, THEN conjunct1] by force
  qed
  have w2: "''WARNING: '' @ f @ '' cannot be processed.''
            \<in> set (warned (batch_files cf tn w in_files out))"
    if "(k, f) \<in> set (enumerate 0 in_files)" and "cf f = Inr (Some ob)"
      and "out_name out k ob = Inr name" and "isl (tn ob name)" for k f ob name
  proof -
    from that(2-4) have "(case cf f of
                          Inl e \<Rightarrow> True
                        | Inr None \<Rightarrow> False
                        | Inr (Some ob) \<Rightarrow>
                            (case out_name out k ob of
                               Inl e \<Rightarrow> True
                             | Inr name \<Rightarrow> isl (tn ob name)))"
      by simp
    with that(1) show ?thesis
      unfolding eff [THEN conjunct2, THEN conjunct1] by force
  qed
  from eff w1 w2 show ?thesis by blast
qed

text \<open>
  Claim C10, at four files: the first fails to convert, the second gives \<open>None\<close>, the
  third is written under the name made from its start time, and the writing of the
  fourth fails.
\<close>

theorem batch_files_skips_and_warns_witness:
  "printed (batch_files sample_convert sample_to_netcdf
      \<lparr>printed = [], warned = [], written = []\<rparr> [''a'', ''b'', ''c'', ''d'']
      (OutPattern ''out_#.nc'')) = [''a'', ''b'', ''c'', ''d'']
   \<and> warned (batch_files sample_convert sample_to_netcdf
      \<lparr>printed = [], warned = [], written = []\<rparr> [''a'', ''b'', ''c'', ''d'']
      (OutPattern ''out_#.nc''))
       = [''WARNING: a cannot be processed.'', ''WARNING: d cannot be processed.'']
   \<and> written (batch_files sample_convert sample_to_netcdf
      \<lparr>printed = [], warned = [], written = []\<rparr> [''a'', ''b'', ''c'', ''d'']
      (OutPattern ''out_#.nc''))
       = [(''out_00003.nc'', \<lparr>otime = [Fin 3.7], oid = 1\<rparr>)]"
  using batch_files_skips_and_warns [of sample_convert sample_to_netcdf
          "\<lparr>printed = [], warned = [], written = []\<rparr>" "[''a'', ''b'', ''c'', ''d'']"
          "OutPattern ''out_#.nc''"]
  by (simp add: sample_convert_def sample_to_netcdf_def out_name_def
        format05_def sub_hash_def Let_def eval_nat_numeral)

end
